theory Spec2Isabelle
  imports Main
begin

section \<open>Data model\<close>

text \<open>
  The task-management backend keeps three collections: tasks, notifications and audit
  log entries. The repository holds three texts of the task router:
  \<^item> \<^verbatim>\<open>src/routes/taskRoutes.js\<close>: create, list, generic update \<^verbatim>\<open>PUT /:id\<close>, delete;
    no notification, no audit log (the definitions suffixed \<open>_basic\<close>);
  \<^item> \<^verbatim>\<open>src/unnamed/part_002\<close>, lines 1 to 122: adds \<^verbatim>\<open>createNotification\<close> and replaces
    the generic update by \<^verbatim>\<open>PUT /:id/status\<close> (the definitions suffixed \<open>_notify\<close>);
  \<^item> \<^verbatim>\<open>src/unnamed/part_002\<close>, lines 123 to 311: adds the request validators and
    \<^verbatim>\<open>logAction\<close> (the definitions with no suffix).
  The handler \<^verbatim>\<open>router.get("/")\<close> is the same in all three, \<^verbatim>\<open>router.delete("/:id")\<close>
  is the same in the first two.

  A task document follows \<^verbatim>\<open>TaskSchema\<close>. The object id of a user is a string: a task
  and a notification store the cast of the string received (its canonical form, as
  \<^verbatim>\<open>toString()\<close> prints it), and a string that does not cast is a validation error; the
  handlers compare \<^verbatim>\<open>task.createdBy.toString()\<close> with \<^verbatim>\<open>req.user.userId\<close> as strings.
  The \<^verbatim>\<open>_id\<close> of a task is a number drawn from a counter of the store; dates are kept as
  the strings received; the timestamps of \<^verbatim>\<open>{ timestamps: true }\<close> are readings of a
  clock.
\<close>

record task =
  task_id :: nat
  title :: string
  description :: string
  status :: string
  dueDate :: string
  assignedTo :: "string option"
  createdBy :: string
  createdAt :: nat
  updatedAt :: nat

datatype action = CREATE | UPDATE | DELETE

record auditLog =
  log_user :: string
  log_action :: action
  log_task :: nat
  log_timestamp :: nat
  log_details :: string

record notification =
  notif_user :: string
  notif_message :: string

text \<open>The decoded token (\<^verbatim>\<open>req.user\<close>) and the fields of \<^verbatim>\<open>req.body\<close> the routers read;
  \<open>None\<close> is a field the request does not carry (\<^verbatim>\<open>undefined\<close>).\<close>

record reqUser =
  userId :: string
  role :: string

record reqBody =
  body_title :: "string option"
  body_description :: "string option"
  body_dueDate :: "string option"
  body_assignedTo :: "string option"
  body_status :: "string option"
  body_createdBy :: "string option"

text \<open>What \<^verbatim>\<open>res.status(n).json(...)\<close> sends.\<close>

datatype json =
    Message string
  | MessageError string
  | MessageTask string task
  | TaskDoc task
  | TaskDocs "task list"
  | Errors "string list"
  | Null

record response =
  res_status :: nat
  res_json :: json

text \<open>An awaited call either resolves with a value or rejects (throws).\<close>

datatype 'a promise = Rejected | Resolved 'a

text \<open>
  The store. \<open>calls\<close> is the sequence of write calls made on the collections, oldest
  first, each with whether it resolved: it records the order in which a handler awaits
  its writes.
\<close>

datatype dbcall = TaskSave | TaskUpdate | TaskDelete | NotificationCreate | AuditLogCreate

record db =
  tasks :: "task list"
  notifications :: "notification list"
  auditLogs :: "auditLog list"
  nextId :: nat
  calls :: "(dbcall \<times> bool) list"

text \<open>
  What the handlers take from outside the repository: the clock, the libraries
  (\<^verbatim>\<open>jwt.verify\<close> with the secret, express-validator's \<^verbatim>\<open>isISO8601\<close>, the casts of
  Mongoose to \<^verbatim>\<open>Date\<close> and to \<^verbatim>\<open>ObjectId\<close>) and, for every call on a collection, whether
  the database rejects it. \<open>castObjectId\<close> gives the canonical string of the object id,
  or \<open>None\<close> when the string does not cast. Whether the database rejects
  \<^verbatim>\<open>Notification.create\<close> is a parameter of the recipient and the message. The rate
  limiter and the logger are outside the model.
\<close>

record env =
  now :: nat
  jwt_verify :: "string \<Rightarrow> reqUser option"
  isISO8601 :: "string \<Rightarrow> bool"
  castDate :: "string \<Rightarrow> bool"
  castObjectId :: "string \<Rightarrow> string option"
  find_rejects :: bool
  findById_rejects :: bool
  save_rejects :: bool
  deleteOne_rejects :: bool
  findByIdAndUpdate_rejects :: bool
  Notification_rejects :: "string \<Rightarrow> string \<Rightarrow> bool"
  auditLog_create_rejects :: bool

section \<open>JavaScript helpers\<close>

text \<open>\<^verbatim>\<open>if (v)\<close> on a value that is a string or \<^verbatim>\<open>undefined\<close>.\<close>

definition truthy :: "string option \<Rightarrow> bool" where
  "truthy v = (case v of None \<Rightarrow> False | Some s \<Rightarrow> s \<noteq> [])"

text \<open>A value inside a template string.\<close>

definition template :: "string option \<Rightarrow> string" where
  "template v = (case v of None \<Rightarrow> ''undefined'' | Some s \<Rightarrow> s)"

text \<open>\<^verbatim>\<open>s.replace(pat, rep)\<close> with a string pattern: the first occurrence only.\<close>

fun replace :: "string \<Rightarrow> string \<Rightarrow> string \<Rightarrow> string" where
  "replace pat rep [] = (if pat = [] then rep else [])"
| "replace pat rep (c # cs) =
     (if take (length pat) (c # cs) = pat then rep @ drop (length pat) (c # cs)
      else c # replace pat rep cs)"

text \<open>A value between single quotes, as \<^verbatim>\<open>'${title}'\<close> in a template string.\<close>

definition quoted :: "string \<Rightarrow> string" where
  "quoted s = [CHR 0x27] @ s @ [CHR 0x27]"

section \<open>middleware/authMiddleware.js\<close>

text \<open>
  \<^verbatim>\<open>authMiddleware\<close> reads the \<^verbatim>\<open>Authorization\<close> header (\<open>None\<close> when the request has
  none). With no header, or an empty one, it answers 401. Otherwise it removes the first
  \<^verbatim>\<open>"Bearer "\<close> from the header and verifies the rest: the decoded token becomes
  \<^verbatim>\<open>req.user\<close> (result \<open>Inr\<close>), and when \<^verbatim>\<open>jwt.verify\<close> throws the \<^verbatim>\<open>catch\<close> branch
  answers 400. \<^verbatim>\<open>adminMiddleware\<close> answers 403 unless the role is \<^verbatim>\<open>admin\<close>
  (\<open>None\<close> is \<^verbatim>\<open>next()\<close>).
\<close>

definition authMiddleware :: "env \<Rightarrow> string option \<Rightarrow> response + reqUser" where
  "authMiddleware e token =
     (if \<not> truthy token then Inl \<lparr>res_status = 401, res_json = Message ''Access Denied''\<rparr>
      else case jwt_verify e (replace ''Bearer '' [] (template token)) of
             Some decoded \<Rightarrow> Inr decoded
           | None \<Rightarrow> Inl \<lparr>res_status = 400, res_json = Message ''Invalid Token''\<rparr>)"

definition adminMiddleware :: "reqUser \<Rightarrow> response option" where
  "adminMiddleware u =
     (if role u \<noteq> ''admin''
      then Some \<lparr>res_status = 403, res_json = Message ''Admin access required''\<rparr>
      else None)"

text \<open>A route \<^verbatim>\<open>router.METHOD(path, authMiddleware, handler)\<close>: the handler runs with the
  decoded token only when the middleware calls \<^verbatim>\<open>next()\<close>.\<close>

definition authenticated ::
  "env \<Rightarrow> string option \<Rightarrow> db \<Rightarrow> (reqUser \<Rightarrow> response \<times> db) \<Rightarrow> response \<times> db" where
  "authenticated e token st handler =
     (case authMiddleware e token of Inl res \<Rightarrow> (res, st) | Inr u \<Rightarrow> handler u)"

section \<open>The collections\<close>

text \<open>The cast of an optional object id: \<open>None\<close> when the value is given and does not
  cast, \<open>Some None\<close> when no value is given.\<close>

definition castOptional :: "env \<Rightarrow> string option \<Rightarrow> string option option" where
  "castOptional e v = (case v of None \<Rightarrow> Some None | Some a \<Rightarrow> map_option Some (castObjectId e a))"

text \<open>
  \<^verbatim>\<open>new Task({title, description, dueDate, assignedTo, createdBy})\<close> checked against
  \<^verbatim>\<open>TaskSchema\<close> as \<^verbatim>\<open>save\<close> does: \<^verbatim>\<open>title\<close>, \<^verbatim>\<open>description\<close> and \<^verbatim>\<open>dueDate\<close> are
  required (a required string is not empty), \<^verbatim>\<open>dueDate\<close> casts to a date,
  \<^verbatim>\<open>createdBy\<close> and, when given, \<^verbatim>\<open>assignedTo\<close> cast to object ids and are stored as
  cast, \<^verbatim>\<open>status\<close> takes its default. \<open>None\<close> is a validation error.
\<close>

definition new_Task :: "env \<Rightarrow> db \<Rightarrow> reqBody \<Rightarrow> string \<Rightarrow> task option" where
  "new_Task e st b uid =
     (case body_title b of None \<Rightarrow> None | Some t \<Rightarrow>
       (case body_description b of None \<Rightarrow> None | Some d \<Rightarrow>
         (case body_dueDate b of None \<Rightarrow> None | Some due \<Rightarrow>
           (case castOptional e (body_assignedTo b) of None \<Rightarrow> None | Some assignee \<Rightarrow>
             (case castObjectId e uid of None \<Rightarrow> None | Some creator \<Rightarrow>
                if t \<noteq> [] \<and> d \<noteq> [] \<and> castDate e due
                then Some \<lparr>task_id = nextId st, title = t, description = d,
                           status = ''Pending'', dueDate = due, assignedTo = assignee,
                           createdBy = creator, createdAt = now e, updatedAt = now e\<rparr>
                else None)))))"

text \<open>\<^verbatim>\<open>await task.save()\<close> on a new document.\<close>

definition Task_save_new :: "env \<Rightarrow> db \<Rightarrow> task option \<Rightarrow> task promise \<times> db" where
  "Task_save_new e st doc =
     (case doc of
        None \<Rightarrow> (Rejected, st\<lparr>calls := calls st @ [(TaskSave, False)]\<rparr>)
      | Some t \<Rightarrow>
          if save_rejects e then (Rejected, st\<lparr>calls := calls st @ [(TaskSave, False)]\<rparr>)
          else (Resolved t,
                st\<lparr>tasks := tasks st @ [t], nextId := Suc (nextId st),
                   calls := calls st @ [(TaskSave, True)]\<rparr>))"

text \<open>\<^verbatim>\<open>Task.find(query)\<close> and \<^verbatim>\<open>Task.findById(id)\<close>. The population of the display
  fields of \<^verbatim>\<open>createdBy\<close> and \<^verbatim>\<open>assignedTo\<close> changes no document of the result and is
  left out (the users' collection is not among the sources).\<close>

definition Task_find :: "env \<Rightarrow> db \<Rightarrow> (task \<Rightarrow> bool) \<Rightarrow> task list promise" where
  "Task_find e st q = (if find_rejects e then Rejected else Resolved (filter q (tasks st)))"

definition Task_findById :: "env \<Rightarrow> db \<Rightarrow> nat \<Rightarrow> task option promise" where
  "Task_findById e st i =
     (if findById_rejects e then Rejected
      else Resolved (find (\<lambda>t. task_id t = i) (tasks st)))"

text \<open>A write addressed by \<^verbatim>\<open>_id\<close> changes or removes one document: the first that
  matches.\<close>

fun update_first :: "('a \<Rightarrow> bool) \<Rightarrow> ('a \<Rightarrow> 'a) \<Rightarrow> 'a list \<Rightarrow> 'a list" where
  "update_first P f [] = []"
| "update_first P f (x # xs) = (if P x then f x # xs else x # update_first P f xs)"

fun delete_first :: "('a \<Rightarrow> bool) \<Rightarrow> 'a list \<Rightarrow> 'a list" where
  "delete_first P [] = []"
| "delete_first P (x # xs) = (if P x then xs else x # delete_first P xs)"

text \<open>\<^verbatim>\<open>task.status = status; await task.save()\<close> on a loaded document. The status was
  checked against the enum by the handler. A document with no modified path is not
  written, so \<^verbatim>\<open>updatedAt\<close> moves only when the status changes. The call resolves
  with the document the handler holds.\<close>

definition set_status :: "env \<Rightarrow> string \<Rightarrow> task \<Rightarrow> task" where
  "set_status e s t = (if status t = s then t else t\<lparr>status := s, updatedAt := now e\<rparr>)"

definition Task_save_status :: "env \<Rightarrow> db \<Rightarrow> task \<Rightarrow> string \<Rightarrow> task promise \<times> db" where
  "Task_save_status e st t s =
     (if save_rejects e then (Rejected, st\<lparr>calls := calls st @ [(TaskSave, False)]\<rparr>)
      else
        (Resolved (set_status e s t),
         st\<lparr>tasks := update_first (\<lambda>x. task_id x = task_id t) (set_status e s) (tasks st),
            calls := calls st @ [(TaskSave, True)]\<rparr>))"

text \<open>\<^verbatim>\<open>await task.deleteOne()\<close>.\<close>

definition Task_deleteOne :: "env \<Rightarrow> db \<Rightarrow> task \<Rightarrow> unit promise \<times> db" where
  "Task_deleteOne e st t =
     (if deleteOne_rejects e then (Rejected, st\<lparr>calls := calls st @ [(TaskDelete, False)]\<rparr>)
      else (Resolved (),
            st\<lparr>tasks := delete_first (\<lambda>x. task_id x = task_id t) (tasks st),
               calls := calls st @ [(TaskDelete, True)]\<rparr>))"

text \<open>
  \<^verbatim>\<open>Task.findByIdAndUpdate(id, req.body, { new: true })\<close> with a body of plain schema
  paths (update operators are not modelled): every path the body carries is cast and
  set; validators do not run (\<^verbatim>\<open>runValidators\<close> is off); \<^verbatim>\<open>updatedAt\<close> is set. A value
  that does not cast rejects the call. \<open>apply_body\<close> takes the cast \<^verbatim>\<open>assignedTo\<close> and
  \<^verbatim>\<open>createdBy\<close> of the body.
\<close>

definition set_field :: "'a option \<Rightarrow> 'a \<Rightarrow> 'a" where
  "set_field v old = (case v of None \<Rightarrow> old | Some x \<Rightarrow> x)"

definition apply_body :: "env \<Rightarrow> reqBody \<Rightarrow> string option \<Rightarrow> string option \<Rightarrow> task \<Rightarrow> task" where
  "apply_body e b assignee creator t =
     t\<lparr>title := set_field (body_title b) (title t),
       description := set_field (body_description b) (description t),
       status := set_field (body_status b) (status t),
       dueDate := set_field (body_dueDate b) (dueDate t),
       assignedTo := (case assignee of None \<Rightarrow> assignedTo t | Some a \<Rightarrow> Some a),
       createdBy := set_field creator (createdBy t),
       updatedAt := now e\<rparr>"

definition Task_findByIdAndUpdate ::
  "env \<Rightarrow> db \<Rightarrow> nat \<Rightarrow> reqBody \<Rightarrow> task option promise \<times> db" where
  "Task_findByIdAndUpdate e st i b =
     (case castOptional e (body_assignedTo b) of
        None \<Rightarrow> (Rejected, st\<lparr>calls := calls st @ [(TaskUpdate, False)]\<rparr>)
      | Some assignee \<Rightarrow>
         (case castOptional e (body_createdBy b) of
            None \<Rightarrow> (Rejected, st\<lparr>calls := calls st @ [(TaskUpdate, False)]\<rparr>)
          | Some creator \<Rightarrow>
              if findByIdAndUpdate_rejects e \<or>
                 (case body_dueDate b of None \<Rightarrow> False | Some d \<Rightarrow> \<not> castDate e d)
              then (Rejected, st\<lparr>calls := calls st @ [(TaskUpdate, False)]\<rparr>)
              else
                (Resolved (map_option (apply_body e b assignee creator)
                             (find (\<lambda>t. task_id t = i) (tasks st))),
                 st\<lparr>tasks := update_first (\<lambda>x. task_id x = i)
                                (apply_body e b assignee creator) (tasks st),
                    calls := calls st @ [(TaskUpdate, True)]\<rparr>)))"

section \<open>The helpers of the task router\<close>

text \<open>
  Modelled from the spec: \<^verbatim>\<open>models/Notification.js\<close> is not among the sources. By the
  spec a notification holds its recipient, a reference to a user, and a message:
  \<^verbatim>\<open>Notification.create({ user, message })\<close> casts the recipient to an object id and
  stores the document, or rejects.
\<close>

definition Notification_create :: "env \<Rightarrow> db \<Rightarrow> string \<Rightarrow> string \<Rightarrow> unit promise \<times> db" where
  "Notification_create e st uid message =
     (case castObjectId e uid of
        None \<Rightarrow> (Rejected, st\<lparr>calls := calls st @ [(NotificationCreate, False)]\<rparr>)
      | Some recipient \<Rightarrow>
          if Notification_rejects e recipient message
          then (Rejected, st\<lparr>calls := calls st @ [(NotificationCreate, False)]\<rparr>)
          else (Resolved (),
                st\<lparr>notifications := notifications st @
                       [\<lparr>notif_user = recipient, notif_message = message\<rparr>],
                   calls := calls st @ [(NotificationCreate, True)]\<rparr>))"

text \<open>
  \<^verbatim>\<open>createNotification\<close> (part_002, lines 9 to 16 and 148 to 154) and \<^verbatim>\<open>logAction\<close>
  (part_002, lines 159 to 170). Both catch what the write throws and only print it:
  they return the store, never an error. \<open>auditLog_create_rejects\<close> stands for every
  rejection of \<^verbatim>\<open>AuditLog.create\<close>; the entry names its user by the id the token carries.
\<close>

definition createNotification :: "env \<Rightarrow> db \<Rightarrow> string \<Rightarrow> string \<Rightarrow> db" where
  "createNotification e st uid message = snd (Notification_create e st uid message)"

definition logAction :: "env \<Rightarrow> db \<Rightarrow> string \<Rightarrow> action \<Rightarrow> nat \<Rightarrow> string \<Rightarrow> db" where
  "logAction e st uid act tid details =
     (if auditLog_create_rejects e
      then st\<lparr>calls := calls st @ [(AuditLogCreate, False)]\<rparr>
      else st\<lparr>auditLogs := auditLogs st @
                 [\<lparr>log_user = uid, log_action = act, log_task = tid,
                   log_timestamp = now e, log_details = details\<rparr>],
              calls := calls st @ [(AuditLogCreate, True)]\<rparr>)"

text \<open>The validators of \<^verbatim>\<open>POST /\<close> (part_002, lines 180 to 184): \<^verbatim>\<open>notEmpty\<close> fails on
  a missing field and on the empty string, \<^verbatim>\<open>isISO8601\<close> on a missing field.\<close>

definition notEmpty :: "string option \<Rightarrow> bool" where
  "notEmpty v = (case v of None \<Rightarrow> False | Some s \<Rightarrow> s \<noteq> [])"

definition validationResult :: "env \<Rightarrow> reqBody \<Rightarrow> string list" where
  "validationResult e b =
     (if notEmpty (body_title b) then [] else [''Title is required'']) @
     (if notEmpty (body_description b) then [] else [''Description is required'']) @
     (if (case body_dueDate b of None \<Rightarrow> False | Some d \<Rightarrow> isISO8601 e d) then []
      else [''Due Date must be a valid date''])"

text \<open>The step \<^verbatim>\<open>if (assignedTo) { await createNotification(assignedTo, ...) }\<close> of
  \<^verbatim>\<open>POST /\<close> (part_002, lines 38 to 40 and 207 to 209).\<close>

definition notify_assigned :: "env \<Rightarrow> db \<Rightarrow> reqBody \<Rightarrow> db" where
  "notify_assigned e st b =
     (if truthy (body_assignedTo b)
      then createNotification e st (template (body_assignedTo b))
             (''You have been assigned a new task: '' @ template (body_title b))
      else st)"

section \<open>The task router with validators and audit log (part_002, lines 123 to 311)\<close>

definition router_post :: "env \<Rightarrow> db \<Rightarrow> reqUser \<Rightarrow> reqBody \<Rightarrow> response \<times> db" where
  "router_post e st u b =
     (if validationResult e b \<noteq> []
      then (\<lparr>res_status = 400, res_json = Errors (validationResult e b)\<rparr>, st)
      else
        (case Task_save_new e st (new_Task e st b (userId u)) of
           (Rejected, st1) \<Rightarrow>
             (\<lparr>res_status = 500, res_json = MessageError ''Error creating task''\<rparr>, st1)
         | (Resolved t, st1) \<Rightarrow>
             (\<lparr>res_status = 201, res_json = TaskDoc t\<rparr>,
              logAction e (notify_assigned e st1 b) (userId u) CREATE (task_id t)
                (''Task '' @ quoted (template (body_title b)) @ '' created''))))"

definition router_get :: "env \<Rightarrow> db \<Rightarrow> reqUser \<Rightarrow> response" where
  "router_get e st u =
     (case (if role u = ''admin'' then Task_find e st (\<lambda>t. True)
            else Task_find e st (\<lambda>t. createdBy t = userId u)) of
        Rejected \<Rightarrow> \<lparr>res_status = 500, res_json = MessageError ''Error fetching tasks''\<rparr>
      | Resolved ts \<Rightarrow> \<lparr>res_status = 200, res_json = TaskDocs ts\<rparr>)"

definition valid_statuses :: "string list" where
  "valid_statuses = [''Pending'', ''In Progress'', ''Completed'']"

definition includes_status :: "string option \<Rightarrow> bool" where
  "includes_status v = (case v of None \<Rightarrow> False | Some s \<Rightarrow> s \<in> set valid_statuses)"

definition router_put_status ::
  "env \<Rightarrow> db \<Rightarrow> reqUser \<Rightarrow> nat \<Rightarrow> reqBody \<Rightarrow> response \<times> db" where
  "router_put_status e st u i b =
     (if \<not> includes_status (body_status b)
      then (\<lparr>res_status = 400, res_json = Message ''Invalid status update''\<rparr>, st)
      else
        (case Task_findById e st i of
           Rejected \<Rightarrow>
             (\<lparr>res_status = 500, res_json = MessageError ''Error updating task status''\<rparr>, st)
         | Resolved None \<Rightarrow> (\<lparr>res_status = 404, res_json = Message ''Task not found''\<rparr>, st)
         | Resolved (Some t) \<Rightarrow>
            if createdBy t \<noteq> userId u \<and> role u \<noteq> ''admin''
            then (\<lparr>res_status = 403, res_json = Message ''Unauthorized to update this task''\<rparr>, st)
            else
              (case Task_save_status e st t (template (body_status b)) of
                 (Rejected, st1) \<Rightarrow>
                   (\<lparr>res_status = 500, res_json = MessageError ''Error updating task status''\<rparr>,
                    st1)
               | (Resolved t', st1) \<Rightarrow>
                   (\<lparr>res_status = 200, res_json = MessageTask ''Task status updated'' t'\<rparr>,
                    logAction e st1 (userId u) UPDATE (task_id t')
                      (''Task status changed to '' @ quoted (template (body_status b)))))))"

definition router_delete :: "env \<Rightarrow> db \<Rightarrow> reqUser \<Rightarrow> nat \<Rightarrow> response \<times> db" where
  "router_delete e st u i =
     (case Task_findById e st i of
        Rejected \<Rightarrow> (\<lparr>res_status = 500, res_json = MessageError ''Error deleting task''\<rparr>, st)
      | Resolved None \<Rightarrow> (\<lparr>res_status = 404, res_json = Message ''Task not found''\<rparr>, st)
      | Resolved (Some t) \<Rightarrow>
          if createdBy t \<noteq> userId u \<and> role u \<noteq> ''admin''
          then (\<lparr>res_status = 403, res_json = Message ''Unauthorized to delete this task''\<rparr>, st)
          else
            (case Task_deleteOne e st t of
               (Rejected, st1) \<Rightarrow>
                 (\<lparr>res_status = 500, res_json = MessageError ''Error deleting task''\<rparr>, st1)
             | (Resolved _, st1) \<Rightarrow>
                 (\<lparr>res_status = 200, res_json = Message ''Task deleted successfully''\<rparr>,
                  logAction e st1 (userId u) DELETE (task_id t)
                    (''Task '' @ quoted (title t) @ '' deleted''))))"

section \<open>The task router with notifications (part_002, lines 1 to 122)\<close>

definition router_post_notify :: "env \<Rightarrow> db \<Rightarrow> reqUser \<Rightarrow> reqBody \<Rightarrow> response \<times> db" where
  "router_post_notify e st u b =
     (case Task_save_new e st (new_Task e st b (userId u)) of
        (Rejected, st1) \<Rightarrow>
          (\<lparr>res_status = 500, res_json = MessageError ''Error creating task''\<rparr>, st1)
      | (Resolved t, st1) \<Rightarrow>
          (\<lparr>res_status = 201, res_json = TaskDoc t\<rparr>, notify_assigned e st1 b))"

definition router_put_status_notify ::
  "env \<Rightarrow> db \<Rightarrow> reqUser \<Rightarrow> nat \<Rightarrow> reqBody \<Rightarrow> response \<times> db" where
  "router_put_status_notify e st u i b =
     (if \<not> includes_status (body_status b)
      then (\<lparr>res_status = 400, res_json = Message ''Invalid status update''\<rparr>, st)
      else
        (case Task_findById e st i of
           Rejected \<Rightarrow>
             (\<lparr>res_status = 500, res_json = MessageError ''Error updating task status''\<rparr>, st)
         | Resolved None \<Rightarrow> (\<lparr>res_status = 404, res_json = Message ''Task not found''\<rparr>, st)
         | Resolved (Some t) \<Rightarrow>
            if createdBy t \<noteq> userId u \<and> role u \<noteq> ''admin''
            then (\<lparr>res_status = 403, res_json = Message ''Unauthorized to update this task''\<rparr>, st)
            else
              (case Task_save_status e st t (template (body_status b)) of
                 (Rejected, st1) \<Rightarrow>
                   (\<lparr>res_status = 500, res_json = MessageError ''Error updating task status''\<rparr>,
                    st1)
               | (Resolved t', st1) \<Rightarrow>
                   (\<lparr>res_status = 200, res_json = MessageTask ''Task status updated'' t'\<rparr>,
                    st1))))"

section \<open>The first task router (src/routes/taskRoutes.js)\<close>

definition router_post_basic :: "env \<Rightarrow> db \<Rightarrow> reqUser \<Rightarrow> reqBody \<Rightarrow> response \<times> db" where
  "router_post_basic e st u b =
     (case Task_save_new e st (new_Task e st b (userId u)) of
        (Rejected, st1) \<Rightarrow>
          (\<lparr>res_status = 500, res_json = MessageError ''Error creating task''\<rparr>, st1)
      | (Resolved t, st1) \<Rightarrow> (\<lparr>res_status = 201, res_json = TaskDoc t\<rparr>, st1))"

definition router_put_basic ::
  "env \<Rightarrow> db \<Rightarrow> reqUser \<Rightarrow> nat \<Rightarrow> reqBody \<Rightarrow> response \<times> db" where
  "router_put_basic e st u i b =
     (case Task_findById e st i of
        Rejected \<Rightarrow> (\<lparr>res_status = 500, res_json = MessageError ''Error updating task''\<rparr>, st)
      | Resolved None \<Rightarrow> (\<lparr>res_status = 404, res_json = Message ''Task not found''\<rparr>, st)
      | Resolved (Some t) \<Rightarrow>
          if createdBy t \<noteq> userId u \<and> role u \<noteq> ''admin''
          then (\<lparr>res_status = 403, res_json = Message ''Unauthorized to update this task''\<rparr>, st)
          else
            (case Task_findByIdAndUpdate e st i b of
               (Rejected, st1) \<Rightarrow>
                 (\<lparr>res_status = 500, res_json = MessageError ''Error updating task''\<rparr>, st1)
             | (Resolved None, st1) \<Rightarrow> (\<lparr>res_status = 200, res_json = Null\<rparr>, st1)
             | (Resolved (Some t'), st1) \<Rightarrow>
                 (\<lparr>res_status = 200, res_json = TaskDoc t'\<rparr>, st1)))"

definition router_delete_basic :: "env \<Rightarrow> db \<Rightarrow> reqUser \<Rightarrow> nat \<Rightarrow> response \<times> db" where
  "router_delete_basic e st u i =
     (case Task_findById e st i of
        Rejected \<Rightarrow> (\<lparr>res_status = 500, res_json = MessageError ''Error deleting task''\<rparr>, st)
      | Resolved None \<Rightarrow> (\<lparr>res_status = 404, res_json = Message ''Task not found''\<rparr>, st)
      | Resolved (Some t) \<Rightarrow>
          if createdBy t \<noteq> userId u \<and> role u \<noteq> ''admin''
          then (\<lparr>res_status = 403, res_json = Message ''Unauthorized to delete this task''\<rparr>, st)
          else
            (case Task_deleteOne e st t of
               (Rejected, st1) \<Rightarrow>
                 (\<lparr>res_status = 500, res_json = MessageError ''Error deleting task''\<rparr>, st1)
             | (Resolved _, st1) \<Rightarrow>
                 (\<lparr>res_status = 200, res_json = Message ''Task deleted successfully''\<rparr>, st1)))"

section \<open>The routes behind their middleware\<close>

text \<open>\<^verbatim>\<open>router.post("/", authMiddleware, [...], handler)\<close> and the other routes of the
  router with validators and audit log.\<close>

definition POST_tasks :: "env \<Rightarrow> string option \<Rightarrow> db \<Rightarrow> reqBody \<Rightarrow> response \<times> db" where
  "POST_tasks e token st b = authenticated e token st (\<lambda>u. router_post e st u b)"

definition GET_tasks :: "env \<Rightarrow> string option \<Rightarrow> db \<Rightarrow> response \<times> db" where
  "GET_tasks e token st = authenticated e token st (\<lambda>u. (router_get e st u, st))"

definition PUT_tasks_status ::
  "env \<Rightarrow> string option \<Rightarrow> db \<Rightarrow> nat \<Rightarrow> reqBody \<Rightarrow> response \<times> db" where
  "PUT_tasks_status e token st i b = authenticated e token st (\<lambda>u. router_put_status e st u i b)"

definition DELETE_tasks :: "env \<Rightarrow> string option \<Rightarrow> db \<Rightarrow> nat \<Rightarrow> response \<times> db" where
  "DELETE_tasks e token st i = authenticated e token st (\<lambda>u. router_delete e st u i)"

section \<open>Observations on responses and stores\<close>


text \<open>The owner recorded for every stored task, in store order.\<close>

definition owners :: "db \<Rightarrow> (nat \<times> string) list" where
  "owners st = map (\<lambda>t. (task_id t, createdBy t)) (tasks st)"

text \<open>The write calls a request added to the store's record of calls.\<close>

definition new_calls :: "db \<Rightarrow> db \<Rightarrow> (dbcall \<times> bool) list" where
  "new_calls st st' = drop (length (calls st)) (calls st')"

text \<open>No notification or audit write is called before a write to the task collection has
  resolved: scanning the calls oldest first, a resolved task write comes before the
  first side effect.\<close>

definition side_effect :: "dbcall \<Rightarrow> bool" where
  "side_effect c = (c = NotificationCreate \<or> c = AuditLogCreate)"

fun commit_first :: "(dbcall \<times> bool) list \<Rightarrow> bool" where
  "commit_first [] = True"
| "commit_first ((c, ok) # cs) =
     (if side_effect c then False else if ok then True else commit_first cs)"

section \<open>Example data\<close>

text \<open>Three users, a store with one task of the first user, and an environment in which
  no call is rejected. Its \<open>isISO8601\<close> and casts stand for the libraries on the values
  used below: they accept the date \<^verbatim>\<open>2030-01-15\<close> and the three users' ids, which are
  in canonical form.\<close>

definition alice :: reqUser where
  "alice = \<lparr>userId = ''650a1b2c3d4e5f6071829301'', role = ''user''\<rparr>"

definition bob :: reqUser where
  "bob = \<lparr>userId = ''650a1b2c3d4e5f6071829302'', role = ''user''\<rparr>"

definition carol :: reqUser where
  "carol = \<lparr>userId = ''650a1b2c3d4e5f6071829303'', role = ''admin''\<rparr>"

definition env0 :: env where
  "env0 = \<lparr>now = 1000,
           jwt_verify = (\<lambda>tok. if tok = ''token-alice'' then Some alice
                               else if tok = ''token-bob'' then Some bob
                               else if tok = ''token-carol'' then Some carol else None),
           isISO8601 = (\<lambda>d. d = ''2030-01-15''),
           castDate = (\<lambda>d. d = ''2030-01-15''),
           castObjectId = (\<lambda>x. if x \<in> {userId alice, userId bob, userId carol} then Some x
                                else None),
           find_rejects = False, findById_rejects = False, save_rejects = False,
           deleteOne_rejects = False, findByIdAndUpdate_rejects = False,
           Notification_rejects = (\<lambda>uid message. False),
           auditLog_create_rejects = False\<rparr>"

definition task1 :: task where
  "task1 = \<lparr>task_id = 1, title = ''Write report'', description = ''Quarterly figures'',
            status = ''Pending'', dueDate = ''2030-01-15'', assignedTo = None,
            createdBy = userId alice, createdAt = 900, updatedAt = 900\<rparr>"

definition db0 :: db where
  "db0 = \<lparr>tasks = [], notifications = [], auditLogs = [], nextId = 1, calls = []\<rparr>"

definition db1 :: db where
  "db1 = \<lparr>tasks = [task1], notifications = [], auditLogs = [], nextId = 2, calls = []\<rparr>"

definition no_body :: reqBody where
  "no_body = \<lparr>body_title = None, body_description = None, body_dueDate = None,
              body_assignedTo = None, body_status = None, body_createdBy = None\<rparr>"

definition new_report :: reqBody where
  "new_report = no_body\<lparr>body_title := Some ''Plan sprint'', body_description := Some ''Next two weeks'',
                        body_dueDate := Some ''2030-01-15''\<rparr>"

section \<open>Authentication outcomes\<close>

text \<open>
  Claim C5, as stated, does not hold of \<^verbatim>\<open>authMiddleware\<close>: a credential that is present
  but fails verification is answered with status 400 and the message
  \<^verbatim>\<open>Invalid Token\<close> (the \<^verbatim>\<open>catch\<close> branch), not with 401. Here the token is one that
  \<^verbatim>\<open>jwt.verify\<close> refuses.
\<close>

theorem invalid_token_is_400:
  "jwt_verify env0 (replace ''Bearer '' [] ''Bearer forged'') = None \<and>
   authMiddleware env0 (Some ''Bearer forged'') =
     Inl \<lparr>res_status = 400, res_json = Message ''Invalid Token''\<rparr>"
  by (simp add: authMiddleware_def env0_def truthy_def template_def)

text \<open>
  Claim C5, amended: a request with no credential (no \<^verbatim>\<open>Authorization\<close> header, or an
  empty one) is answered 401 \<^verbatim>\<open>Access Denied\<close>; a request whose credential fails
  verification is answered 400 \<^verbatim>\<open>Invalid Token\<close>. In both cases the handler of the
  route does not run and the store is unchanged.
\<close>

theorem authMiddleware_rejections:
  "(\<not> truthy token \<longrightarrow>
      authMiddleware e token = Inl \<lparr>res_status = 401, res_json = Message ''Access Denied''\<rparr> \<and>
      authenticated e token st handler =
        (\<lparr>res_status = 401, res_json = Message ''Access Denied''\<rparr>, st)) \<and>
   (truthy token \<and> jwt_verify e (replace ''Bearer '' [] (template token)) = None \<longrightarrow>
      authMiddleware e token = Inl \<lparr>res_status = 400, res_json = Message ''Invalid Token''\<rparr> \<and>
      authenticated e token st handler =
        (\<lparr>res_status = 400, res_json = Message ''Invalid Token''\<rparr>, st))"
  by (simp add: authMiddleware_def authenticated_def)

theorem authMiddleware_rejections_witness:
  "\<not> truthy None \<and>
   authMiddleware env0 None = Inl \<lparr>res_status = 401, res_json = Message ''Access Denied''\<rparr> \<and>
   POST_tasks env0 None db0 new_report =
     (\<lparr>res_status = 401, res_json = Message ''Access Denied''\<rparr>, db0) \<and>
   truthy (Some ''Bearer forged'') \<and>
   jwt_verify env0 (replace ''Bearer '' [] (template (Some ''Bearer forged''))) = None \<and>
   authMiddleware env0 (Some ''Bearer forged'') =
     Inl \<lparr>res_status = 400, res_json = Message ''Invalid Token''\<rparr> \<and>
   POST_tasks env0 (Some ''Bearer forged'') db0 new_report =
     (\<lparr>res_status = 400, res_json = Message ''Invalid Token''\<rparr>, db0)"
proof -
  have a: "\<not> truthy None" by (simp add: truthy_def)
  have b: "truthy (Some ''Bearer forged'')" by (simp add: truthy_def)
  have c: "jwt_verify env0 (replace ''Bearer '' [] (template (Some ''Bearer forged''))) = None"
    by (simp add: env0_def template_def)
  from a b c
    authMiddleware_rejections [of None env0 db0 "\<lambda>u. router_post env0 db0 u new_report"]
    authMiddleware_rejections [of "Some ''Bearer forged''" env0 db0
      "\<lambda>u. router_post env0 db0 u new_report"]
  show ?thesis by (simp add: POST_tasks_def)
qed

section \<open>Status validation\<close>

text \<open>
  Claim C6: whoever the authenticated caller is and whatever the task id, a status update
  whose status is not one of the three values of the enum (on the wire \<^verbatim>\<open>Pending\<close>,
  \<^verbatim>\<open>In Progress\<close>, \<^verbatim>\<open>Completed\<close>), or is missing, is answered 400; the store is left as
  it was, so no task changes status and no audit entry is written.
\<close>

theorem invalid_status_rejected:
  assumes "body_status b \<notin> {Some ''Pending'', Some ''In Progress'', Some ''Completed''}"
  shows "router_put_status e st u i b =
           (\<lparr>res_status = 400, res_json = Message ''Invalid status update''\<rparr>, st) \<and>
         tasks (snd (router_put_status e st u i b)) = tasks st \<and>
         auditLogs (snd (router_put_status e st u i b)) = auditLogs st"
proof -
  from assms have "\<not> includes_status (body_status b)"
    by (auto simp: includes_status_def valid_statuses_def split: option.splits)
  then show ?thesis by (simp add: router_put_status_def)
qed

theorem invalid_status_rejected_witness:
  "body_status (no_body\<lparr>body_status := Some ''Done''\<rparr>)
     \<notin> {Some ''Pending'', Some ''In Progress'', Some ''Completed''} \<and>
   router_put_status env0 db1 alice 1 (no_body\<lparr>body_status := Some ''Done''\<rparr>) =
     (\<lparr>res_status = 400, res_json = Message ''Invalid status update''\<rparr>, db1) \<and>
   router_put_status env0 db1 carol 7 (no_body\<lparr>body_status := None\<rparr>) =
     (\<lparr>res_status = 400, res_json = Message ''Invalid status update''\<rparr>, db1)"
proof -
  have a: "body_status (no_body\<lparr>body_status := Some ''Done''\<rparr>)
     \<notin> {Some ''Pending'', Some ''In Progress'', Some ''Completed''}" by simp
  have b: "body_status (no_body\<lparr>body_status := None\<rparr>)
     \<notin> {Some ''Pending'', Some ''In Progress'', Some ''Completed''}" by simp
  from a invalid_status_rejected [OF a, of env0 db1 alice 1]
    invalid_status_rejected [OF b, of env0 db1 carol 7]
  show ?thesis by simp
qed

section \<open>Facts about the collections and the helpers\<close>

lemma find_update_first:
  "find P xs = Some t \<Longrightarrow> P (f t) \<Longrightarrow> find P (update_first P f xs) = Some (f t)"
  by (induction xs) (auto split: if_splits)

lemma find_Some_holds: "find P xs = Some t \<Longrightarrow> P t"
  by (induction xs) (auto split: if_splits)

lemma task_id_set_status: "task_id (set_status e s t) = task_id t"
  by (simp add: set_status_def)

lemma logAction_fields:
  "tasks (logAction e st uid a tid d) = tasks st"
  "notifications (logAction e st uid a tid d) = notifications st"
  "nextId (logAction e st uid a tid d) = nextId st"
  "calls (logAction e st uid a tid d) = calls st @ [(AuditLogCreate, \<not> auditLog_create_rejects e)]"
  "auditLogs (logAction e st uid a tid d) =
     (if auditLog_create_rejects e then auditLogs st
      else auditLogs st @ [\<lparr>log_user = uid, log_action = a, log_task = tid,
                            log_timestamp = now e, log_details = d\<rparr>])"
  by (simp_all add: logAction_def)

lemma createNotification_fields:
  "tasks (createNotification e st x m) = tasks st"
  "auditLogs (createNotification e st x m) = auditLogs st"
  "nextId (createNotification e st x m) = nextId st"
  "calls (createNotification e st x m) =
     calls st @ [(NotificationCreate,
                  (case castObjectId e x of None \<Rightarrow> False
                   | Some c \<Rightarrow> \<not> Notification_rejects e c m))]"
  "notifications (createNotification e st x m) =
     (case castObjectId e x of
        None \<Rightarrow> notifications st
      | Some c \<Rightarrow>
          if Notification_rejects e c m then notifications st
          else notifications st @ [\<lparr>notif_user = c, notif_message = m\<rparr>])"
  by (simp_all add: createNotification_def Notification_create_def split: option.splits)

lemma notify_assigned_fields:
  "tasks (notify_assigned e st b) = tasks st"
  "auditLogs (notify_assigned e st b) = auditLogs st"
  "nextId (notify_assigned e st b) = nextId st"
  by (simp_all add: notify_assigned_def createNotification_fields)

section \<open>Listing\<close>



section \<open>Ownership check on update and delete\<close>

text \<open>
  Claim C1, as stated, does not hold of \<^verbatim>\<open>PUT /:id/status\<close>: the status value is checked
  before the task is loaded, so a caller who is neither the owner nor an admin and sends
  an invalid status is answered 400 \<^verbatim>\<open>Invalid status update\<close>, not 403.
\<close>

theorem non_owner_invalid_status_is_400:
  "Task_findById env0 db1 1 = Resolved (Some task1) \<and>
   createdBy task1 \<noteq> userId bob \<and> role bob \<noteq> ''admin'' \<and>
   router_put_status env0 db1 bob 1 (no_body\<lparr>body_status := Some ''Done''\<rparr>) =
     (\<lparr>res_status = 400, res_json = Message ''Invalid status update''\<rparr>, db1)"
  by (simp add: router_put_status_def includes_status_def valid_statuses_def
        Task_findById_def env0_def db1_def task1_def alice_def bob_def)

text \<open>
  Claim C1, amended: for a task the lookup returns, a status update or a delete succeeds
  only if the caller's role is \<^verbatim>\<open>admin\<close> or the task's \<^verbatim>\<open>createdBy\<close> is the caller's
  id. For every other caller the store is unchanged and the answer is 403, except that a
  status update carrying an invalid status is answered 400 (the status is validated
  first). This holds of \<^verbatim>\<open>PUT /:id/status\<close> and \<^verbatim>\<open>DELETE /:id\<close> in each router that has
  them, and of the generic \<^verbatim>\<open>PUT /:id\<close>, which never answers 400.
\<close>

theorem owner_or_admin_only:
  assumes "Task_findById e st i = Resolved (Some t)"
  shows "(res_status (fst (router_put_status e st u i b)) = 200 \<or>
          res_status (fst (router_delete e st u i)) = 200 \<or>
          res_status (fst (router_delete_basic e st u i)) = 200 \<or>
          res_status (fst (router_put_status_notify e st u i b)) = 200 \<or>
          res_status (fst (router_put_basic e st u i b)) = 200
            \<longrightarrow> role u = ''admin'' \<or> createdBy t = userId u) \<and>
         (role u \<noteq> ''admin'' \<and> createdBy t \<noteq> userId u \<longrightarrow>
            router_put_status e st u i b =
              (if body_status b \<in> {Some ''Pending'', Some ''In Progress'', Some ''Completed''}
               then \<lparr>res_status = 403, res_json = Message ''Unauthorized to update this task''\<rparr>
               else \<lparr>res_status = 400, res_json = Message ''Invalid status update''\<rparr>, st) \<and>
            router_put_status_notify e st u i b = router_put_status e st u i b \<and>
            router_delete e st u i =
              (\<lparr>res_status = 403, res_json = Message ''Unauthorized to delete this task''\<rparr>, st) \<and>
            router_delete_basic e st u i =
              (\<lparr>res_status = 403, res_json = Message ''Unauthorized to delete this task''\<rparr>, st) \<and>
            router_put_basic e st u i b =
              (\<lparr>res_status = 403, res_json = Message ''Unauthorized to update this task''\<rparr>, st))"
proof -
  have inc: "includes_status (body_status b) =
        (body_status b \<in> {Some ''Pending'', Some ''In Progress'', Some ''Completed''})"
    by (auto simp: includes_status_def valid_statuses_def split: option.splits)
  have denied: "role u \<noteq> ''admin'' \<and> createdBy t \<noteq> userId u \<longrightarrow>
            router_put_status e st u i b =
              (if body_status b \<in> {Some ''Pending'', Some ''In Progress'', Some ''Completed''}
               then \<lparr>res_status = 403, res_json = Message ''Unauthorized to update this task''\<rparr>
               else \<lparr>res_status = 400, res_json = Message ''Invalid status update''\<rparr>, st) \<and>
            router_put_status_notify e st u i b = router_put_status e st u i b \<and>
            router_delete e st u i =
              (\<lparr>res_status = 403, res_json = Message ''Unauthorized to delete this task''\<rparr>, st) \<and>
            router_delete_basic e st u i =
              (\<lparr>res_status = 403, res_json = Message ''Unauthorized to delete this task''\<rparr>, st) \<and>
            router_put_basic e st u i b =
              (\<lparr>res_status = 403, res_json = Message ''Unauthorized to update this task''\<rparr>, st)"
    using assms
    by (simp add: router_put_status_def router_put_status_notify_def router_delete_def
          router_delete_basic_def router_put_basic_def inc)
  then have "res_status (fst (router_put_status e st u i b)) = 200 \<or>
          res_status (fst (router_delete e st u i)) = 200 \<or>
          res_status (fst (router_delete_basic e st u i)) = 200 \<or>
          res_status (fst (router_put_status_notify e st u i b)) = 200 \<or>
          res_status (fst (router_put_basic e st u i b)) = 200
            \<longrightarrow> role u = ''admin'' \<or> createdBy t = userId u"
    by (auto split: if_splits)
  with denied show ?thesis by blast
qed

theorem owner_or_admin_only_witness:
  "Task_findById env0 db1 1 = Resolved (Some task1) \<and>
   role bob \<noteq> ''admin'' \<and> createdBy task1 \<noteq> userId bob \<and>
   router_put_status env0 db1 bob 1 (no_body\<lparr>body_status := Some ''Completed''\<rparr>) =
     (\<lparr>res_status = 403, res_json = Message ''Unauthorized to update this task''\<rparr>, db1) \<and>
   router_delete env0 db1 bob 1 =
     (\<lparr>res_status = 403, res_json = Message ''Unauthorized to delete this task''\<rparr>, db1) \<and>
   router_delete_basic env0 db1 bob 1 =
     (\<lparr>res_status = 403, res_json = Message ''Unauthorized to delete this task''\<rparr>, db1) \<and>
   res_status (fst (router_delete env0 db1 alice 1)) = 200 \<and>
   (role alice = ''admin'' \<or> createdBy task1 = userId alice)"
proof -
  have a: "Task_findById env0 db1 1 = Resolved (Some task1)"
    by (simp add: Task_findById_def env0_def db1_def task1_def)
  have b: "role bob \<noteq> ''admin''" "createdBy task1 \<noteq> userId bob"
    by (simp_all add: bob_def alice_def task1_def)
  have c: "res_status (fst (router_delete env0 db1 alice 1)) = 200"
    by (simp add: router_delete_def Task_findById_def Task_deleteOne_def env0_def db1_def
          task1_def alice_def)
  have d: "body_status (no_body\<lparr>body_status := Some ''Completed''\<rparr>)
            \<in> {Some ''Pending'', Some ''In Progress'', Some ''Completed''}" by simp
  from a b c d
    owner_or_admin_only [OF a, of bob "no_body\<lparr>body_status := Some ''Completed''\<rparr>"]
    owner_or_admin_only [OF a, of alice no_body]
  show ?thesis by auto
qed

section \<open>The frame of a status update\<close>

text \<open>
  Claim C10: after a status update answered 200 on a stored task, the stored task and the
  task in the response have the requested status, and every other field but
  \<^verbatim>\<open>updatedAt\<close> (the id, title, description, due date, assignee, creator and creation
  time) is as before. This holds of \<^verbatim>\<open>PUT /:id/status\<close> with and without the audit log.
\<close>

theorem status_update_frame:
  assumes "h = router_put_status \<or> h = router_put_status_notify"
      and "find (\<lambda>x. task_id x = i) (tasks st) = Some t"
      and "h e st u i b = (r, st')" and "res_status r = 200"
  shows "\<exists>t'. find (\<lambda>x. task_id x = i) (tasks st') = Some t' \<and>
              res_json r = MessageTask ''Task status updated'' t' \<and>
              body_status b = Some (status t') \<and>
              task_id t' = task_id t \<and> title t' = title t \<and>
              description t' = description t \<and> dueDate t' = dueDate t \<and>
              assignedTo t' = assignedTo t \<and> createdBy t' = createdBy t \<and>
              createdAt t' = createdAt t"
proof -
  have i: "task_id t = i" using assms(2) by (auto dest: find_Some_holds)
  have f: "find (\<lambda>x. task_id x = i) (update_first (\<lambda>x. task_id x = i) (set_status e s) (tasks st))
             = Some (set_status e s t)" for s
    using assms(2) i by (intro find_update_first) (simp_all add: task_id_set_status)
  from assms(1) show ?thesis
  proof
    assume "h = router_put_status"
    with assms(2,3,4) i f show ?thesis
      by (auto simp: router_put_status_def Task_findById_def Task_save_status_def logAction_def
            includes_status_def template_def set_status_def
          split: if_splits option.splits)
  next
    assume "h = router_put_status_notify"
    with assms(2,3,4) i f show ?thesis
      by (auto simp: router_put_status_notify_def Task_findById_def Task_save_status_def
            includes_status_def template_def set_status_def
          split: if_splits option.splits)
  qed
qed

theorem status_update_frame_witness:
  "find (\<lambda>x. task_id x = 1) (tasks db1) = Some task1 \<and>
   router_put_status env0 db1 alice 1 (no_body\<lparr>body_status := Some ''Completed''\<rparr>) =
     (\<lparr>res_status = 200,
       res_json = MessageTask ''Task status updated''
                    (task1\<lparr>status := ''Completed'', updatedAt := 1000\<rparr>)\<rparr>,
      logAction env0
        (db1\<lparr>tasks := [task1\<lparr>status := ''Completed'', updatedAt := 1000\<rparr>],
             calls := [(TaskSave, True)]\<rparr>)
        (userId alice) UPDATE 1 (''Task status changed to '' @ quoted ''Completed'')) \<and>
   (\<exists>t'. find (\<lambda>x. task_id x = 1)
           (tasks (logAction env0
              (db1\<lparr>tasks := [task1\<lparr>status := ''Completed'', updatedAt := 1000\<rparr>],
                   calls := [(TaskSave, True)]\<rparr>)
              (userId alice) UPDATE 1 (''Task status changed to '' @ quoted ''Completed''))) = Some t' \<and>
         status t' = ''Completed'' \<and> title t' = title task1 \<and> createdBy t' = createdBy task1)"
proof -
  have a: "find (\<lambda>x. task_id x = 1) (tasks db1) = Some task1"
    by (simp add: db1_def task1_def)
  have b: "router_put_status env0 db1 alice 1 (no_body\<lparr>body_status := Some ''Completed''\<rparr>) =
     (\<lparr>res_status = 200,
       res_json = MessageTask ''Task status updated''
                    (task1\<lparr>status := ''Completed'', updatedAt := 1000\<rparr>)\<rparr>,
      logAction env0
        (db1\<lparr>tasks := [task1\<lparr>status := ''Completed'', updatedAt := 1000\<rparr>],
             calls := [(TaskSave, True)]\<rparr>)
        (userId alice) UPDATE 1 (''Task status changed to '' @ quoted ''Completed''))"
    by (simp add: router_put_status_def includes_status_def valid_statuses_def
          Task_findById_def Task_save_status_def set_status_def template_def
          env0_def db1_def task1_def alice_def)
  from status_update_frame [OF disjI1 [OF refl] a b]
  have "\<exists>t'. find (\<lambda>x. task_id x = 1)
           (tasks (logAction env0
              (db1\<lparr>tasks := [task1\<lparr>status := ''Completed'', updatedAt := 1000\<rparr>],
                   calls := [(TaskSave, True)]\<rparr>)
              (userId alice) UPDATE 1 (''Task status changed to '' @ quoted ''Completed''))) = Some t' \<and>
         status t' = ''Completed'' \<and> title t' = title task1 \<and> createdBy t' = createdBy task1"
    by auto
  with a b show ?thesis by blast
qed

section \<open>Order of the writes and isolation of the side effects\<close>

text \<open>What a successful request of the router with the audit log leaves in the store, and
  the write calls it makes, in order.\<close>

lemma notify_assigned_calls:
  "calls (notify_assigned e st b) =
     calls st @ (if truthy (body_assignedTo b)
                 then [(NotificationCreate,
                        (case castObjectId e (template (body_assignedTo b)) of None \<Rightarrow> False
                         | Some c \<Rightarrow>
                             \<not> Notification_rejects e c
                                 (''You have been assigned a new task: '' @ template (body_title b))))]
                 else [])"
  by (simp add: notify_assigned_def createNotification_fields split: option.splits)

lemma router_post_ok:
  assumes "res_status (fst (router_post e st u b)) = 201"
  shows "\<exists>t. new_Task e st b (userId u) = Some t \<and>
             router_post e st u b =
               (\<lparr>res_status = 201, res_json = TaskDoc t\<rparr>,
                logAction e
                  (notify_assigned e
                     (st\<lparr>tasks := tasks st @ [t], nextId := Suc (nextId st),
                         calls := calls st @ [(TaskSave, True)]\<rparr>) b)
                  (userId u) CREATE (task_id t)
                  (''Task '' @ quoted (template (body_title b)) @ '' created''))"
  using assms
  by (auto simp: router_post_def Task_save_new_def split: option.splits if_splits)

lemma router_post_failed:
  assumes "res_status (fst (router_post e st u b)) \<noteq> 201"
  shows "snd (router_post e st u b) = st \<or>
         snd (router_post e st u b) = st\<lparr>calls := calls st @ [(TaskSave, False)]\<rparr>"
  using assms
  by (auto simp: router_post_def Task_save_new_def split: option.splits if_splits)

lemma router_put_status_ok:
  assumes "res_status (fst (router_put_status e st u i b)) = 200"
  shows "\<exists>t. find (\<lambda>x. task_id x = i) (tasks st) = Some t \<and>
             router_put_status e st u i b =
               (\<lparr>res_status = 200,
                 res_json = MessageTask ''Task status updated''
                              (set_status e (template (body_status b)) t)\<rparr>,
                logAction e
                  (st\<lparr>tasks := update_first (\<lambda>x. task_id x = i)
                                 (set_status e (template (body_status b))) (tasks st),
                      calls := calls st @ [(TaskSave, True)]\<rparr>)
                  (userId u) UPDATE i
                  (''Task status changed to '' @ quoted (template (body_status b))))"
  using assms
  by (auto simp: router_put_status_def Task_findById_def Task_save_status_def
        task_id_set_status split: option.splits if_splits dest!: find_Some_holds)

lemma router_put_status_failed:
  assumes "res_status (fst (router_put_status e st u i b)) \<noteq> 200"
  shows "snd (router_put_status e st u i b) = st \<or>
         snd (router_put_status e st u i b) = st\<lparr>calls := calls st @ [(TaskSave, False)]\<rparr>"
  using assms
  by (auto simp: router_put_status_def Task_findById_def Task_save_status_def
        split: option.splits if_splits)

lemma router_delete_ok:
  assumes "res_status (fst (router_delete e st u i)) = 200"
  shows "\<exists>t. find (\<lambda>x. task_id x = i) (tasks st) = Some t \<and>
             router_delete e st u i =
               (\<lparr>res_status = 200, res_json = Message ''Task deleted successfully''\<rparr>,
                logAction e
                  (st\<lparr>tasks := delete_first (\<lambda>x. task_id x = i) (tasks st),
                      calls := calls st @ [(TaskDelete, True)]\<rparr>)
                  (userId u) DELETE i (''Task '' @ quoted (title t) @ '' deleted''))"
  using assms
  by (auto simp: router_delete_def Task_findById_def Task_deleteOne_def
        split: option.splits if_splits dest!: find_Some_holds)

lemma router_delete_failed:
  assumes "res_status (fst (router_delete e st u i)) \<noteq> 200"
  shows "snd (router_delete e st u i) = st \<or>
         snd (router_delete e st u i) = st\<lparr>calls := calls st @ [(TaskDelete, False)]\<rparr>"
  using assms
  by (auto simp: router_delete_def Task_findById_def Task_deleteOne_def
        split: option.splits if_splits)

lemma length_delete_first:
  "find P xs = Some t \<Longrightarrow> Suc (length (delete_first P xs)) = length xs"
  by (induction xs) (auto split: if_splits)

lemma status_set_status: "status (set_status e s t) = s"
  by (simp add: set_status_def)

lemma new_Task_sinks:
  "new_Task (e\<lparr>Notification_rejects := nr, auditLog_create_rejects := ar\<rparr>) st b uid = new_Task e st b uid"
  by (simp add: new_Task_def castOptional_def split: option.splits)

lemma set_status_sinks:
  "set_status (e\<lparr>Notification_rejects := nr, auditLog_create_rejects := ar\<rparr>) s = set_status e s"
  by (rule ext) (simp add: set_status_def)

lemma validationResult_sinks:
  "validationResult (e\<lparr>Notification_rejects := nr, auditLog_create_rejects := ar\<rparr>) b = validationResult e b"
  by (simp add: validationResult_def split: option.splits)

lemma router_post_committed:
  assumes "res_status (fst (router_post e st u b)) = 201"
  shows "\<exists>t ok. res_json (fst (router_post e st u b)) = TaskDoc t \<and>
           tasks (snd (router_post e st u b)) = tasks st @ [t] \<and>
           new_calls st (snd (router_post e st u b)) =
             (TaskSave, True) #
             (if truthy (body_assignedTo b) then [(NotificationCreate, ok)] else []) @
             [(AuditLogCreate, \<not> auditLog_create_rejects e)]"
proof -
  from router_post_ok [OF assms] obtain t where
    r: "router_post e st u b =
               (\<lparr>res_status = 201, res_json = TaskDoc t\<rparr>,
                logAction e
                  (notify_assigned e
                     (st\<lparr>tasks := tasks st @ [t], nextId := Suc (nextId st),
                         calls := calls st @ [(TaskSave, True)]\<rparr>) b)
                  (userId u) CREATE (task_id t)
                  (''Task '' @ quoted (template (body_title b)) @ '' created''))"
    by blast
  show ?thesis
    unfolding r
    by (simp add: new_calls_def logAction_fields notify_assigned_fields notify_assigned_calls)
qed

lemma router_put_status_committed:
  assumes "res_status (fst (router_put_status e st u i b)) = 200"
  shows "\<exists>t'. res_json (fst (router_put_status e st u i b)) =
                MessageTask ''Task status updated'' t' \<and>
           find (\<lambda>x. task_id x = i) (tasks (snd (router_put_status e st u i b))) = Some t' \<and>
           status t' = template (body_status b) \<and>
           new_calls st (snd (router_put_status e st u i b)) =
             [(TaskSave, True), (AuditLogCreate, \<not> auditLog_create_rejects e)]"
proof -
  from router_put_status_ok [OF assms] obtain t where
    f: "find (\<lambda>x. task_id x = i) (tasks st) = Some t" and
    r: "router_put_status e st u i b =
               (\<lparr>res_status = 200,
                 res_json = MessageTask ''Task status updated''
                              (set_status e (template (body_status b)) t)\<rparr>,
                logAction e
                  (st\<lparr>tasks := update_first (\<lambda>x. task_id x = i)
                                 (set_status e (template (body_status b))) (tasks st),
                      calls := calls st @ [(TaskSave, True)]\<rparr>)
                  (userId u) UPDATE i
                  (''Task status changed to '' @ quoted (template (body_status b))))"
    by blast
  have i: "task_id t = i" using f by (auto dest: find_Some_holds)
  have g: "find (\<lambda>x. task_id x = i)
             (update_first (\<lambda>x. task_id x = i) (set_status e (template (body_status b))) (tasks st))
           = Some (set_status e (template (body_status b)) t)"
    using f i by (intro find_update_first) (simp_all add: task_id_set_status)
  show ?thesis
    unfolding r
    by (simp add: new_calls_def logAction_fields g status_set_status)
qed

lemma router_delete_committed:
  assumes "res_status (fst (router_delete e st u i)) = 200"
  shows "tasks (snd (router_delete e st u i)) = delete_first (\<lambda>x. task_id x = i) (tasks st) \<and>
         Suc (length (tasks (snd (router_delete e st u i)))) = length (tasks st) \<and>
         new_calls st (snd (router_delete e st u i)) =
           [(TaskDelete, True), (AuditLogCreate, \<not> auditLog_create_rejects e)]"
proof -
  from router_delete_ok [OF assms] obtain t where
    f: "find (\<lambda>x. task_id x = i) (tasks st) = Some t" and
    r: "router_delete e st u i =
               (\<lparr>res_status = 200, res_json = Message ''Task deleted successfully''\<rparr>,
                logAction e
                  (st\<lparr>tasks := delete_first (\<lambda>x. task_id x = i) (tasks st),
                      calls := calls st @ [(TaskDelete, True)]\<rparr>)
                  (userId u) DELETE i (''Task '' @ quoted (title t) @ '' deleted''))"
    by blast
  show ?thesis
    unfolding r
    by (simp add: new_calls_def logAction_fields length_delete_first [OF f])
qed

lemma no_side_effect_without_commit:
  assumes "st' = st \<or> st' = st\<lparr>calls := calls st @ [(c, False)]\<rparr>" and "\<not> side_effect c"
  shows "tasks st' = tasks st \<and> notifications st' = notifications st \<and>
         auditLogs st' = auditLogs st \<and> filter (\<lambda>p. side_effect (fst p)) (new_calls st st') = []"
  using assms by (auto simp: new_calls_def)

text \<open>
  Claim C4: in \<^verbatim>\<open>POST /\<close>, \<^verbatim>\<open>PUT /:id/status\<close> and \<^verbatim>\<open>DELETE /:id\<close> of the router with
  the audit log, a request that succeeds has first written the task collection (the new
  task is stored, the stored task has the requested status, the task is removed) and
  only then called the notification and audit writes, in that order; whether those
  writes resolve or are rejected, the mutation stays in the store and the response is
  the same. A request that does not succeed leaves tasks, notifications and audit
  entries as they were and calls no side effect.
\<close>

theorem side_effects_after_commit_and_isolated:
  "(res_status (fst (router_post e st u b)) = 201 \<longrightarrow>
      (\<exists>t ok. res_json (fst (router_post e st u b)) = TaskDoc t \<and>
         tasks (snd (router_post e st u b)) = tasks st @ [t] \<and>
         new_calls st (snd (router_post e st u b)) =
           (TaskSave, True) #
           (if truthy (body_assignedTo b) then [(NotificationCreate, ok)] else []) @
           [(AuditLogCreate, \<not> auditLog_create_rejects e)])) \<and>
   (res_status (fst (router_post e st u b)) \<noteq> 201 \<longrightarrow>
      tasks (snd (router_post e st u b)) = tasks st \<and>
      notifications (snd (router_post e st u b)) = notifications st \<and>
      auditLogs (snd (router_post e st u b)) = auditLogs st \<and>
      filter (\<lambda>p. side_effect (fst p)) (new_calls st (snd (router_post e st u b))) = []) \<and>
   (res_status (fst (router_put_status e st u i b)) = 200 \<longrightarrow>
      (\<exists>t'. res_json (fst (router_put_status e st u i b)) =
                MessageTask ''Task status updated'' t' \<and>
         find (\<lambda>x. task_id x = i) (tasks (snd (router_put_status e st u i b))) = Some t' \<and>
         status t' = template (body_status b) \<and>
         new_calls st (snd (router_put_status e st u i b)) =
           [(TaskSave, True), (AuditLogCreate, \<not> auditLog_create_rejects e)])) \<and>
   (res_status (fst (router_put_status e st u i b)) \<noteq> 200 \<longrightarrow>
      tasks (snd (router_put_status e st u i b)) = tasks st \<and>
      notifications (snd (router_put_status e st u i b)) = notifications st \<and>
      auditLogs (snd (router_put_status e st u i b)) = auditLogs st \<and>
      filter (\<lambda>p. side_effect (fst p)) (new_calls st (snd (router_put_status e st u i b))) = []) \<and>
   (res_status (fst (router_delete e st u i)) = 200 \<longrightarrow>
      tasks (snd (router_delete e st u i)) = delete_first (\<lambda>x. task_id x = i) (tasks st) \<and>
      Suc (length (tasks (snd (router_delete e st u i)))) = length (tasks st) \<and>
      new_calls st (snd (router_delete e st u i)) =
        [(TaskDelete, True), (AuditLogCreate, \<not> auditLog_create_rejects e)]) \<and>
   (res_status (fst (router_delete e st u i)) \<noteq> 200 \<longrightarrow>
      tasks (snd (router_delete e st u i)) = tasks st \<and>
      notifications (snd (router_delete e st u i)) = notifications st \<and>
      auditLogs (snd (router_delete e st u i)) = auditLogs st \<and>
      filter (\<lambda>p. side_effect (fst p)) (new_calls st (snd (router_delete e st u i))) = []) \<and>
   commit_first (new_calls st (snd (router_post e st u b))) \<and>
   commit_first (new_calls st (snd (router_put_status e st u i b))) \<and>
   commit_first (new_calls st (snd (router_delete e st u i))) \<and>
   fst (router_post (e\<lparr>Notification_rejects := nr, auditLog_create_rejects := ar\<rparr>) st u b)
     = fst (router_post e st u b) \<and>
   tasks (snd (router_post (e\<lparr>Notification_rejects := nr, auditLog_create_rejects := ar\<rparr>) st u b))
     = tasks (snd (router_post e st u b)) \<and>
   fst (router_put_status (e\<lparr>Notification_rejects := nr, auditLog_create_rejects := ar\<rparr>) st u i b)
     = fst (router_put_status e st u i b) \<and>
   tasks (snd (router_put_status (e\<lparr>Notification_rejects := nr, auditLog_create_rejects := ar\<rparr>) st u i b))
     = tasks (snd (router_put_status e st u i b)) \<and>
   fst (router_delete (e\<lparr>Notification_rejects := nr, auditLog_create_rejects := ar\<rparr>) st u i)
     = fst (router_delete e st u i) \<and>
   tasks (snd (router_delete (e\<lparr>Notification_rejects := nr, auditLog_create_rejects := ar\<rparr>) st u i))
     = tasks (snd (router_delete e st u i))"
proof -
  let ?e' = "e\<lparr>Notification_rejects := nr, auditLog_create_rejects := ar\<rparr>"
  have n1: "\<not> side_effect TaskSave" and n2: "\<not> side_effect TaskDelete"
    by (simp_all add: side_effect_def)
  have c1: "res_status (fst (router_post e st u b)) = 201 \<longrightarrow>
      (\<exists>t ok. res_json (fst (router_post e st u b)) = TaskDoc t \<and>
         tasks (snd (router_post e st u b)) = tasks st @ [t] \<and>
         new_calls st (snd (router_post e st u b)) =
           (TaskSave, True) #
           (if truthy (body_assignedTo b) then [(NotificationCreate, ok)] else []) @
           [(AuditLogCreate, \<not> auditLog_create_rejects e)])"
    by (intro impI router_post_committed)
  have f1: "res_status (fst (router_post e st u b)) \<noteq> 201 \<longrightarrow>
      tasks (snd (router_post e st u b)) = tasks st \<and>
      notifications (snd (router_post e st u b)) = notifications st \<and>
      auditLogs (snd (router_post e st u b)) = auditLogs st \<and>
      filter (\<lambda>p. side_effect (fst p)) (new_calls st (snd (router_post e st u b))) = []"
    by (intro impI no_side_effect_without_commit [OF _ n1] router_post_failed)
  have c2: "res_status (fst (router_put_status e st u i b)) = 200 \<longrightarrow>
      (\<exists>t'. res_json (fst (router_put_status e st u i b)) =
                MessageTask ''Task status updated'' t' \<and>
         find (\<lambda>x. task_id x = i) (tasks (snd (router_put_status e st u i b))) = Some t' \<and>
         status t' = template (body_status b) \<and>
         new_calls st (snd (router_put_status e st u i b)) =
           [(TaskSave, True), (AuditLogCreate, \<not> auditLog_create_rejects e)])"
    by (intro impI router_put_status_committed)
  have f2: "res_status (fst (router_put_status e st u i b)) \<noteq> 200 \<longrightarrow>
      tasks (snd (router_put_status e st u i b)) = tasks st \<and>
      notifications (snd (router_put_status e st u i b)) = notifications st \<and>
      auditLogs (snd (router_put_status e st u i b)) = auditLogs st \<and>
      filter (\<lambda>p. side_effect (fst p)) (new_calls st (snd (router_put_status e st u i b))) = []"
    by (intro impI no_side_effect_without_commit [OF _ n1] router_put_status_failed)
  have c3: "res_status (fst (router_delete e st u i)) = 200 \<longrightarrow>
      tasks (snd (router_delete e st u i)) = delete_first (\<lambda>x. task_id x = i) (tasks st) \<and>
      Suc (length (tasks (snd (router_delete e st u i)))) = length (tasks st) \<and>
      new_calls st (snd (router_delete e st u i)) =
        [(TaskDelete, True), (AuditLogCreate, \<not> auditLog_create_rejects e)]"
    by (intro impI router_delete_committed)
  have f3: "res_status (fst (router_delete e st u i)) \<noteq> 200 \<longrightarrow>
      tasks (snd (router_delete e st u i)) = tasks st \<and>
      notifications (snd (router_delete e st u i)) = notifications st \<and>
      auditLogs (snd (router_delete e st u i)) = auditLogs st \<and>
      filter (\<lambda>p. side_effect (fst p)) (new_calls st (snd (router_delete e st u i))) = []"
    by (intro impI no_side_effect_without_commit [OF _ n2] router_delete_failed)
  have o1: "commit_first (new_calls st (snd (router_post e st u b)))"
  proof (cases "res_status (fst (router_post e st u b)) = 201")
    case True
    from router_post_committed [OF True] obtain cs where
      "new_calls st (snd (router_post e st u b)) = (TaskSave, True) # cs" by auto
    then show ?thesis by (simp add: n1)
  next
    case False
    from router_post_failed [OF False] have
      "new_calls st (snd (router_post e st u b)) = [] \<or>
       new_calls st (snd (router_post e st u b)) = [(TaskSave, False)]"
      by (auto simp: new_calls_def)
    then show ?thesis by (auto simp: n1)
  qed
  have o2: "commit_first (new_calls st (snd (router_put_status e st u i b)))"
  proof (cases "res_status (fst (router_put_status e st u i b)) = 200")
    case True
    from router_put_status_committed [OF True] obtain cs where
      "new_calls st (snd (router_put_status e st u i b)) = (TaskSave, True) # cs" by auto
    then show ?thesis by (simp add: n1)
  next
    case False
    from router_put_status_failed [OF False] have
      "new_calls st (snd (router_put_status e st u i b)) = [] \<or>
       new_calls st (snd (router_put_status e st u i b)) = [(TaskSave, False)]"
      by (auto simp: new_calls_def)
    then show ?thesis by (auto simp: n1)
  qed
  have o3: "commit_first (new_calls st (snd (router_delete e st u i)))"
  proof (cases "res_status (fst (router_delete e st u i)) = 200")
    case True
    from router_delete_committed [OF True] obtain cs where
      "new_calls st (snd (router_delete e st u i)) = (TaskDelete, True) # cs" by auto
    then show ?thesis by (simp add: n2)
  next
    case False
    from router_delete_failed [OF False] have
      "new_calls st (snd (router_delete e st u i)) = [] \<or>
       new_calls st (snd (router_delete e st u i)) = [(TaskDelete, False)]"
      by (auto simp: new_calls_def)
    then show ?thesis by (auto simp: n2)
  qed
  have p: "fst (router_post ?e' st u b) = fst (router_post e st u b)"
          "tasks (snd (router_post ?e' st u b)) = tasks (snd (router_post e st u b))"
    by (simp_all add: router_post_def Task_save_new_def new_Task_sinks validationResult_sinks
          logAction_fields notify_assigned_fields split: option.splits)
  have q: "fst (router_put_status ?e' st u i b) = fst (router_put_status e st u i b)"
          "tasks (snd (router_put_status ?e' st u i b)) = tasks (snd (router_put_status e st u i b))"
    by (simp_all add: router_put_status_def Task_findById_def Task_save_status_def
          set_status_sinks logAction_fields split: option.splits)
  have r: "fst (router_delete ?e' st u i) = fst (router_delete e st u i)"
          "tasks (snd (router_delete ?e' st u i)) = tasks (snd (router_delete e st u i))"
    by (simp_all add: router_delete_def Task_findById_def Task_deleteOne_def
          logAction_fields split: option.splits)
  show ?thesis
    by (intro conjI c1 f1 c2 f2 c3 f3 o1 o2 o3 p q r)
qed

theorem side_effects_after_commit_and_isolated_witness:
  "auditLog_create_rejects (env0\<lparr>Notification_rejects := \<lambda>uid message. True, auditLog_create_rejects := True\<rparr>) \<and>
   res_status (fst (router_post
      (env0\<lparr>Notification_rejects := \<lambda>uid message. True, auditLog_create_rejects := True\<rparr>)
      db1 alice (new_report\<lparr>body_assignedTo := Some (userId bob)\<rparr>))) = 201 \<and>
   (\<exists>t ok. res_json (fst (router_post
        (env0\<lparr>Notification_rejects := \<lambda>uid message. True, auditLog_create_rejects := True\<rparr>)
        db1 alice (new_report\<lparr>body_assignedTo := Some (userId bob)\<rparr>))) = TaskDoc t \<and>
      tasks (snd (router_post
        (env0\<lparr>Notification_rejects := \<lambda>uid message. True, auditLog_create_rejects := True\<rparr>)
        db1 alice (new_report\<lparr>body_assignedTo := Some (userId bob)\<rparr>))) = tasks db1 @ [t] \<and>
      new_calls db1 (snd (router_post
        (env0\<lparr>Notification_rejects := \<lambda>uid message. True, auditLog_create_rejects := True\<rparr>)
        db1 alice (new_report\<lparr>body_assignedTo := Some (userId bob)\<rparr>))) =
        [(TaskSave, True), (NotificationCreate, ok), (AuditLogCreate, False)]) \<and>
   notifications (snd (router_post
      (env0\<lparr>Notification_rejects := \<lambda>uid message. True, auditLog_create_rejects := True\<rparr>)
      db1 alice (new_report\<lparr>body_assignedTo := Some (userId bob)\<rparr>))) = [] \<and>
   auditLogs (snd (router_post
      (env0\<lparr>Notification_rejects := \<lambda>uid message. True, auditLog_create_rejects := True\<rparr>)
      db1 alice (new_report\<lparr>body_assignedTo := Some (userId bob)\<rparr>))) = [] \<and>
   res_status (fst (router_put_status
      (env0\<lparr>Notification_rejects := \<lambda>uid message. True, auditLog_create_rejects := True\<rparr>)
      db1 alice 1 (no_body\<lparr>body_status := Some ''Completed''\<rparr>))) = 200 \<and>
   (\<exists>t'. find (\<lambda>x. task_id x = 1) (tasks (snd (router_put_status
        (env0\<lparr>Notification_rejects := \<lambda>uid message. True, auditLog_create_rejects := True\<rparr>)
        db1 alice 1 (no_body\<lparr>body_status := Some ''Completed''\<rparr>)))) = Some t' \<and>
      status t' = ''Completed'') \<and>
   res_status (fst (router_delete
      (env0\<lparr>Notification_rejects := \<lambda>uid message. True, auditLog_create_rejects := True\<rparr>)
      db1 alice 1)) = 200 \<and>
   tasks (snd (router_delete
      (env0\<lparr>Notification_rejects := \<lambda>uid message. True, auditLog_create_rejects := True\<rparr>)
      db1 alice 1)) = [] \<and>
   res_status (fst (router_delete env0 db1 bob 1)) \<noteq> 200 \<and>
   tasks (snd (router_delete env0 db1 bob 1)) = tasks db1"
proof -
  let ?e = "env0\<lparr>Notification_rejects := \<lambda>uid message. True, auditLog_create_rejects := True\<rparr>"
  let ?b = "new_report\<lparr>body_assignedTo := Some (userId bob)\<rparr>"
  let ?s = "no_body\<lparr>body_status := Some ''Completed''\<rparr>"
  have a: "auditLog_create_rejects ?e" by simp
  have b: "res_status (fst (router_post ?e db1 alice ?b)) = 201"
    by (simp add: router_post_def validationResult_def notEmpty_def new_Task_def castOptional_def
          Task_save_new_def env0_def new_report_def no_body_def alice_def bob_def)
  have c: "res_status (fst (router_put_status ?e db1 alice 1 ?s)) = 200"
    by (simp add: router_put_status_def includes_status_def valid_statuses_def
          Task_findById_def Task_save_status_def env0_def db1_def task1_def alice_def)
  have d: "res_status (fst (router_delete ?e db1 alice 1)) = 200"
    by (simp add: router_delete_def Task_findById_def Task_deleteOne_def env0_def db1_def
          task1_def alice_def)
  have f: "res_status (fst (router_delete env0 db1 bob 1)) \<noteq> 200"
    by (simp add: router_delete_def Task_findById_def env0_def db1_def task1_def alice_def bob_def)
  have g: "truthy (body_assignedTo ?b)" by (simp add: truthy_def bob_def)
  have h: "template (body_status ?s) = ''Completed''" by (simp add: template_def)
  have k: "delete_first (\<lambda>x. task_id x = 1) (tasks db1) = []"
    by (simp add: db1_def task1_def)
  note t1 = side_effects_after_commit_and_isolated
    [where e = ?e and st = db1 and u = alice and b = ?b and i = 1]
  note t2 = side_effects_after_commit_and_isolated
    [where e = ?e and st = db1 and u = alice and b = ?s and i = 1]
  note t3 = side_effects_after_commit_and_isolated
    [where e = env0 and st = db1 and u = bob and b = ?s and i = 1]
  have w1: "\<exists>t ok. res_json (fst (router_post ?e db1 alice ?b)) = TaskDoc t \<and>
      tasks (snd (router_post ?e db1 alice ?b)) = tasks db1 @ [t] \<and>
      new_calls db1 (snd (router_post ?e db1 alice ?b)) =
        [(TaskSave, True), (NotificationCreate, ok), (AuditLogCreate, False)]"
    using conjunct1 [OF t1] a b g by simp
  have w2: "\<exists>t'. find (\<lambda>x. task_id x = 1) (tasks (snd (router_put_status ?e db1 alice 1 ?s))) = Some t' \<and>
      status t' = ''Completed''"
    using conjunct1 [OF conjunct2 [OF conjunct2 [OF t2]]] c h by auto
  have w3: "tasks (snd (router_delete ?e db1 alice 1)) = []"
    using conjunct1 [OF conjunct2 [OF conjunct2 [OF conjunct2 [OF conjunct2 [OF t2]]]]] d k
    by simp
  have w4: "tasks (snd (router_delete env0 db1 bob 1)) = tasks db1"
    using conjunct1 [OF conjunct2 [OF conjunct2 [OF conjunct2 [OF conjunct2 [OF conjunct2 [OF t3]]]]]] f
    by simp
  have v1: "notifications (snd (router_post ?e db1 alice ?b)) = []"
    "auditLogs (snd (router_post ?e db1 alice ?b)) = []"
    by (simp_all add: router_post_def validationResult_def notEmpty_def new_Task_def
          castOptional_def Task_save_new_def notify_assigned_def truthy_def template_def
          createNotification_fields logAction_fields
          env0_def db1_def new_report_def no_body_def alice_def bob_def)
  from a b c d f w1 w2 w3 w4 v1 show ?thesis by (intro conjI)
qed

section \<open>Audit trail\<close>

text \<open>
  Claim C3, as stated, does not hold. The generic update \<^verbatim>\<open>PUT /:id\<close> of
  \<^verbatim>\<open>src/routes/taskRoutes.js\<close> succeeds and writes no audit entry (that router has no
  audit log); and in the router with the audit log a status update succeeds with no
  audit entry when \<^verbatim>\<open>AuditLog.create\<close> rejects, since \<^verbatim>\<open>logAction\<close> swallows the failure.
\<close>

theorem update_without_audit_entry:
  "res_status (fst (router_put_basic env0 db1 alice 1 (no_body\<lparr>body_status := Some ''Completed''\<rparr>))) = 200 \<and>
   auditLogs (snd (router_put_basic env0 db1 alice 1 (no_body\<lparr>body_status := Some ''Completed''\<rparr>))) = [] \<and>
   res_status (fst (router_put_status (env0\<lparr>auditLog_create_rejects := True\<rparr>) db1 alice 1
                      (no_body\<lparr>body_status := Some ''Completed''\<rparr>))) = 200 \<and>
   auditLogs (snd (router_put_status (env0\<lparr>auditLog_create_rejects := True\<rparr>) db1 alice 1
                      (no_body\<lparr>body_status := Some ''Completed''\<rparr>))) = []"
  by (simp add: router_put_basic_def router_put_status_def Task_findById_def
        Task_findByIdAndUpdate_def Task_save_status_def castOptional_def includes_status_def
        valid_statuses_def logAction_fields
        env0_def db1_def task1_def alice_def no_body_def)

lemma router_post_audit:
  "auditLogs (snd (router_post e st u b)) =
     (if res_status (fst (router_post e st u b)) = 201 \<and> \<not> auditLog_create_rejects e
      then auditLogs st @
             [\<lparr>log_user = userId u, log_action = CREATE, log_task = nextId st,
               log_timestamp = now e,
               log_details = ''Task '' @ quoted (template (body_title b)) @ '' created''\<rparr>]
      else auditLogs st)"
  by (auto simp: router_post_def Task_save_new_def new_Task_def logAction_fields
        notify_assigned_fields split: option.splits if_splits)

lemma router_post_created:
  "res_status (fst (router_post e st u b)) = 201 \<Longrightarrow>
     \<exists>t. res_json (fst (router_post e st u b)) = TaskDoc t \<and> task_id t = nextId st \<and>
         castObjectId e (userId u) = Some (createdBy t) \<and>
         tasks (snd (router_post e st u b)) = tasks st @ [t]"
  by (auto simp: router_post_def Task_save_new_def new_Task_def logAction_fields
        notify_assigned_fields split: option.splits if_splits)

lemma router_put_status_audit:
  "auditLogs (snd (router_put_status e st u i b)) =
     (if res_status (fst (router_put_status e st u i b)) = 200 \<and> \<not> auditLog_create_rejects e
      then auditLogs st @
             [\<lparr>log_user = userId u, log_action = UPDATE, log_task = i,
               log_timestamp = now e,
               log_details = ''Task status changed to '' @ quoted (template (body_status b))\<rparr>]
      else auditLogs st)"
  by (auto simp: router_put_status_def Task_findById_def Task_save_status_def logAction_fields
        task_id_set_status split: option.splits if_splits dest: find_Some_holds)

lemma router_delete_audit:
  "if res_status (fst (router_delete e st u i)) = 200 \<and> \<not> auditLog_create_rejects e
   then \<exists>d. auditLogs (snd (router_delete e st u i)) =
          auditLogs st @
             [\<lparr>log_user = userId u, log_action = DELETE, log_task = i,
               log_timestamp = now e, log_details = d\<rparr>]
   else auditLogs (snd (router_delete e st u i)) = auditLogs st"
  by (auto simp: router_delete_def Task_findById_def Task_deleteOne_def logAction_fields
        split: option.splits if_splits dest: find_Some_holds)

lemma no_audit_routers:
  "auditLogs (snd (router_post_basic e st u b)) = auditLogs st"
  "auditLogs (snd (router_put_basic e st u i b)) = auditLogs st"
  "auditLogs (snd (router_delete_basic e st u i)) = auditLogs st"
  "auditLogs (snd (router_post_notify e st u b)) = auditLogs st"
  "auditLogs (snd (router_put_status_notify e st u i b)) = auditLogs st"
  by (auto simp: router_post_basic_def router_put_basic_def router_delete_basic_def
        router_post_notify_def router_put_status_notify_def Task_save_new_def
        Task_findById_def Task_findByIdAndUpdate_def Task_deleteOne_def Task_save_status_def
        notify_assigned_fields split: option.splits if_splits)

text \<open>
  Claim C3, amended: in the router with the audit log, a create, status update or delete
  that succeeds and whose audit write is not rejected adds exactly one audit entry, with
  the matching action, the caller as user and the id of the affected task (for a create,
  the id of the task in the response); when the audit write is rejected the request
  succeeds all the same and no entry is added; a request that fails adds none, and one
  stopped by \<^verbatim>\<open>authMiddleware\<close> changes nothing in the store. The routers without
  \<^verbatim>\<open>logAction\<close> never add an audit entry.
\<close>

theorem audit_entries:
  "auditLogs (snd (router_post e st u b)) =
     (if res_status (fst (router_post e st u b)) = 201 \<and> \<not> auditLog_create_rejects e
      then auditLogs st @
             [\<lparr>log_user = userId u, log_action = CREATE, log_task = nextId st,
               log_timestamp = now e,
               log_details = ''Task '' @ quoted (template (body_title b)) @ '' created''\<rparr>]
      else auditLogs st) \<and>
   (res_status (fst (router_post e st u b)) = 201 \<longrightarrow>
      (\<exists>t. res_json (fst (router_post e st u b)) = TaskDoc t \<and> task_id t = nextId st)) \<and>
   auditLogs (snd (router_put_status e st u i b)) =
     (if res_status (fst (router_put_status e st u i b)) = 200 \<and> \<not> auditLog_create_rejects e
      then auditLogs st @
             [\<lparr>log_user = userId u, log_action = UPDATE, log_task = i,
               log_timestamp = now e,
               log_details = ''Task status changed to '' @ quoted (template (body_status b))\<rparr>]
      else auditLogs st) \<and>
   (if res_status (fst (router_delete e st u i)) = 200 \<and> \<not> auditLog_create_rejects e
    then \<exists>d. auditLogs (snd (router_delete e st u i)) =
           auditLogs st @
             [\<lparr>log_user = userId u, log_action = DELETE, log_task = i,
               log_timestamp = now e, log_details = d\<rparr>]
    else auditLogs (snd (router_delete e st u i)) = auditLogs st) \<and>
   (authMiddleware e token = Inl res \<longrightarrow>
      POST_tasks e token st b = (res, st) \<and> PUT_tasks_status e token st i b = (res, st) \<and>
      DELETE_tasks e token st i = (res, st)) \<and>
   (authMiddleware e token = Inr u \<longrightarrow>
      POST_tasks e token st b = router_post e st u b \<and>
      PUT_tasks_status e token st i b = router_put_status e st u i b \<and>
      DELETE_tasks e token st i = router_delete e st u i) \<and>
   auditLogs (snd (router_post_basic e st u b)) = auditLogs st \<and>
   auditLogs (snd (router_put_basic e st u i b)) = auditLogs st \<and>
   auditLogs (snd (router_delete_basic e st u i)) = auditLogs st \<and>
   auditLogs (snd (router_post_notify e st u b)) = auditLogs st \<and>
   auditLogs (snd (router_put_status_notify e st u i b)) = auditLogs st"
proof -
  have created: "res_status (fst (router_post e st u b)) = 201 \<longrightarrow>
      (\<exists>t. res_json (fst (router_post e st u b)) = TaskDoc t \<and> task_id t = nextId st)"
    using router_post_created [of e st u b] by blast
  have denied: "authMiddleware e token = Inl res \<longrightarrow>
      POST_tasks e token st b = (res, st) \<and> PUT_tasks_status e token st i b = (res, st) \<and>
      DELETE_tasks e token st i = (res, st)"
    by (simp add: POST_tasks_def PUT_tasks_status_def DELETE_tasks_def authenticated_def)
  have passed: "authMiddleware e token = Inr u \<longrightarrow>
      POST_tasks e token st b = router_post e st u b \<and>
      PUT_tasks_status e token st i b = router_put_status e st u i b \<and>
      DELETE_tasks e token st i = router_delete e st u i"
    by (simp add: POST_tasks_def PUT_tasks_status_def DELETE_tasks_def authenticated_def)
  show ?thesis
    by (intro conjI router_post_audit created router_put_status_audit router_delete_audit
          denied passed no_audit_routers)
qed

theorem audit_entries_witness:
  "res_status (fst (router_post env0 db1 alice new_report)) = 201 \<and>
   \<not> auditLog_create_rejects env0 \<and>
   auditLogs (snd (router_post env0 db1 alice new_report)) =
     auditLogs db1 @
       [\<lparr>log_user = userId alice, log_action = CREATE, log_task = nextId db1,
         log_timestamp = now env0,
         log_details = ''Task '' @ quoted (template (body_title new_report)) @ '' created''\<rparr>] \<and>
   (\<exists>t. res_json (fst (router_post env0 db1 alice new_report)) = TaskDoc t \<and>
        task_id t = nextId db1) \<and>
   res_status (fst (router_delete env0 db1 carol 1)) = 200 \<and>
   (\<exists>d. auditLogs (snd (router_delete env0 db1 carol 1)) =
        auditLogs db1 @
          [\<lparr>log_user = userId carol, log_action = DELETE, log_task = 1,
            log_timestamp = now env0, log_details = d\<rparr>]) \<and>
   authMiddleware env0 None = Inl \<lparr>res_status = 401, res_json = Message ''Access Denied''\<rparr> \<and>
   DELETE_tasks env0 None db1 1 =
     (\<lparr>res_status = 401, res_json = Message ''Access Denied''\<rparr>, db1) \<and>
   authMiddleware env0 (Some ''Bearer token-alice'') = Inr alice \<and>
   POST_tasks env0 (Some ''Bearer token-alice'') db1 new_report =
     router_post env0 db1 alice new_report"
proof -
  have a: "res_status (fst (router_post env0 db1 alice new_report)) = 201"
    by (simp add: router_post_def validationResult_def notEmpty_def new_Task_def castOptional_def
          Task_save_new_def env0_def new_report_def no_body_def alice_def)
  have b: "\<not> auditLog_create_rejects env0" by (simp add: env0_def)
  have c: "res_status (fst (router_delete env0 db1 carol 1)) = 200"
    by (simp add: router_delete_def Task_findById_def Task_deleteOne_def env0_def db1_def
          task1_def carol_def)
  have d: "authMiddleware env0 None = Inl \<lparr>res_status = 401, res_json = Message ''Access Denied''\<rparr>"
    by (simp add: authMiddleware_def truthy_def)
  have e: "authMiddleware env0 (Some ''Bearer token-alice'') = Inr alice"
    by (simp add: authMiddleware_def truthy_def template_def env0_def)
  note t1 = audit_entries [of env0 db1 alice new_report 1 None
               "\<lparr>res_status = 401, res_json = Message ''Access Denied''\<rparr>"]
  note t2 = audit_entries [of env0 db1 carol new_report 1 None
               "\<lparr>res_status = 401, res_json = Message ''Access Denied''\<rparr>"]
  note t3 = audit_entries [of env0 db1 alice new_report 1 "Some ''Bearer token-alice''"
               "\<lparr>res_status = 401, res_json = Message ''Access Denied''\<rparr>"]
  have w1: "auditLogs (snd (router_post env0 db1 alice new_report)) =
     auditLogs db1 @
       [\<lparr>log_user = userId alice, log_action = CREATE, log_task = nextId db1,
         log_timestamp = now env0,
         log_details = ''Task '' @ quoted (template (body_title new_report)) @ '' created''\<rparr>]"
    using t1 a b by simp
  have w2: "\<exists>t. res_json (fst (router_post env0 db1 alice new_report)) = TaskDoc t \<and>
        task_id t = nextId db1"
    using t1 a by blast
  have w3: "\<exists>d. auditLogs (snd (router_delete env0 db1 carol 1)) =
        auditLogs db1 @
          [\<lparr>log_user = userId carol, log_action = DELETE, log_task = 1,
            log_timestamp = now env0, log_details = d\<rparr>]"
    using t2 b c by simp
  have w4: "DELETE_tasks env0 None db1 1 =
     (\<lparr>res_status = 401, res_json = Message ''Access Denied''\<rparr>, db1)"
    using t1 d by blast
  have w5: "POST_tasks env0 (Some ''Bearer token-alice'') db1 new_report =
     router_post env0 db1 alice new_report"
    using t3 e by blast
  from a b c d e w1 w2 w3 w4 w5 show ?thesis by blast
qed

section \<open>Validation of a create request\<close>






section \<open>Notification on assignment\<close>

text \<open>
  Claim C8, as stated, does not hold. When \<^verbatim>\<open>Notification.create\<close> rejects,
  \<^verbatim>\<open>createNotification\<close> swallows the failure: the creation is answered 201 and no
  notification exists for the assignee. And \<^verbatim>\<open>POST /\<close> of \<^verbatim>\<open>src/routes/taskRoutes.js\<close>,
  which has no notification at all, answers 201 for the same request and writes none.
\<close>

theorem creation_without_notification:
  "body_assignedTo (new_report\<lparr>body_assignedTo := Some (userId bob)\<rparr>) = Some (userId bob) \<and>
   res_status (fst (router_post (env0\<lparr>Notification_rejects := \<lambda>uid message. True\<rparr>) db0 alice
                      (new_report\<lparr>body_assignedTo := Some (userId bob)\<rparr>))) = 201 \<and>
   notifications (snd (router_post (env0\<lparr>Notification_rejects := \<lambda>uid message. True\<rparr>) db0 alice
                      (new_report\<lparr>body_assignedTo := Some (userId bob)\<rparr>))) = [] \<and>
   res_status (fst (router_post_basic env0 db0 alice
                      (new_report\<lparr>body_assignedTo := Some (userId bob)\<rparr>))) = 201 \<and>
   notifications (snd (router_post_basic env0 db0 alice
                      (new_report\<lparr>body_assignedTo := Some (userId bob)\<rparr>))) = []"
  by (simp add: router_post_def router_post_basic_def validationResult_def notEmpty_def
        new_Task_def castOptional_def Task_save_new_def
        notify_assigned_def truthy_def template_def createNotification_fields logAction_fields
        env0_def db0_def new_report_def no_body_def alice_def bob_def carol_def)

lemma notify_assigned_notifications:
  "notifications (notify_assigned e st b) =
     (case body_assignedTo b of
        None \<Rightarrow> notifications st
      | Some x \<Rightarrow>
          if x = [] then notifications st
          else
            (case castObjectId e x of
               None \<Rightarrow> notifications st
             | Some c \<Rightarrow>
                 if Notification_rejects e c
                      (''You have been assigned a new task: '' @ template (body_title b))
                 then notifications st
                 else notifications st @
                        [\<lparr>notif_user = c,
                          notif_message =
                            ''You have been assigned a new task: '' @ template (body_title b)\<rparr>]))"
  by (simp add: notify_assigned_def truthy_def template_def createNotification_fields
        split: option.splits)

lemma new_Task_assignee:
  "new_Task e st b uid = Some t \<Longrightarrow> body_assignedTo b = Some x \<Longrightarrow>
     \<exists>c. assignedTo t = Some c \<and> castObjectId e x = Some c"
  by (auto simp: new_Task_def castOptional_def split: option.splits if_splits)

lemma router_post_notifications:
  assumes "h = router_post \<or> h = router_post_notify"
  shows "(res_status (fst (h e st u b)) = 201 \<longrightarrow>
            (\<exists>t. new_Task e st b (userId u) = Some t \<and> res_json (fst (h e st u b)) = TaskDoc t \<and>
                 notifications (snd (h e st u b)) = notifications (notify_assigned e st b))) \<and>
         (res_status (fst (h e st u b)) \<noteq> 201 \<longrightarrow>
            notifications (snd (h e st u b)) = notifications st)"
  using assms
  by (auto simp: router_post_def router_post_notify_def Task_save_new_def logAction_fields
        notify_assigned_notifications split: option.splits if_splits)

lemma router_post_basic_notifications:
  "notifications (snd (router_post_basic e st u b)) = notifications st"
  by (auto simp: router_post_basic_def Task_save_new_def split: option.splits)

text \<open>
  Claim C8, amended: in the routers that have \<^verbatim>\<open>createNotification\<close> (both routers of
  part_002), a successful creation with \<^verbatim>\<open>assignedTo\<close> set to a user \<open>x\<close> adds exactly
  one notification, whose recipient is that user (the object id the new task stores as
  \<^verbatim>\<open>assignedTo\<close>), unless the notification write is rejected, in which case none is added
  and the creation succeeds all the same; a creation with \<^verbatim>\<open>assignedTo\<close> omitted (or
  empty) adds none, and neither does a creation that fails. The router of
  \<^verbatim>\<open>src/routes/taskRoutes.js\<close> has no notification and never adds one.
\<close>

theorem assignment_notification:
  assumes "h = router_post \<or> h = router_post_notify"
  shows
  "(res_status (fst (h e st u b)) = 201 \<and> body_assignedTo b = Some x \<and> x \<noteq> [] \<longrightarrow>
      (\<exists>t c. res_json (fst (h e st u b)) = TaskDoc t \<and> assignedTo t = Some c \<and>
         castObjectId e x = Some c \<and>
         notifications (snd (h e st u b)) =
           (if Notification_rejects e c
                 (''You have been assigned a new task: '' @ template (body_title b))
            then notifications st
            else notifications st @
                   [\<lparr>notif_user = c,
                     notif_message =
                       ''You have been assigned a new task: '' @ template (body_title b)\<rparr>]))) \<and>
   (body_assignedTo b \<in> {None, Some []} \<longrightarrow>
      notifications (snd (h e st u b)) = notifications st) \<and>
   (res_status (fst (h e st u b)) \<noteq> 201 \<longrightarrow>
      notifications (snd (h e st u b)) = notifications st) \<and>
   notifications (snd (router_post_basic e st u b)) = notifications st"
proof -
  note n = router_post_notifications [OF assms, of e st u b]
  have a: "res_status (fst (h e st u b)) = 201 \<and> body_assignedTo b = Some x \<and> x \<noteq> [] \<longrightarrow>
      (\<exists>t c. res_json (fst (h e st u b)) = TaskDoc t \<and> assignedTo t = Some c \<and>
         castObjectId e x = Some c \<and>
         notifications (snd (h e st u b)) =
           (if Notification_rejects e c
                 (''You have been assigned a new task: '' @ template (body_title b))
            then notifications st
            else notifications st @
                   [\<lparr>notif_user = c,
                     notif_message =
                       ''You have been assigned a new task: '' @ template (body_title b)\<rparr>]))"
  proof (intro impI, elim conjE)
    assume s: "res_status (fst (h e st u b)) = 201" and x: "body_assignedTo b = Some x" "x \<noteq> []"
    from n s obtain t where t: "new_Task e st b (userId u) = Some t"
      "res_json (fst (h e st u b)) = TaskDoc t"
      "notifications (snd (h e st u b)) = notifications (notify_assigned e st b)"
      by blast
    from new_Task_assignee [OF t(1) x(1)] obtain c where
      c: "assignedTo t = Some c" "castObjectId e x = Some c" by blast
    from t(3) x c have "notifications (snd (h e st u b)) =
           (if Notification_rejects e c
                 (''You have been assigned a new task: '' @ template (body_title b))
            then notifications st
            else notifications st @
                   [\<lparr>notif_user = c,
                     notif_message =
                       ''You have been assigned a new task: '' @ template (body_title b)\<rparr>])"
      by (simp add: notify_assigned_notifications)
    with t(2) c show "\<exists>t c. res_json (fst (h e st u b)) = TaskDoc t \<and> assignedTo t = Some c \<and>
         castObjectId e x = Some c \<and>
         notifications (snd (h e st u b)) =
           (if Notification_rejects e c
                 (''You have been assigned a new task: '' @ template (body_title b))
            then notifications st
            else notifications st @
                   [\<lparr>notif_user = c,
                     notif_message =
                       ''You have been assigned a new task: '' @ template (body_title b)\<rparr>])"
      by blast
  qed
  have b: "body_assignedTo b \<in> {None, Some []} \<longrightarrow>
      notifications (snd (h e st u b)) = notifications st"
  proof
    assume "body_assignedTo b \<in> {None, Some []}"
    then have "notifications (notify_assigned e st b) = notifications st"
      by (auto simp: notify_assigned_notifications)
    with n show "notifications (snd (h e st u b)) = notifications st"
      by (cases "res_status (fst (h e st u b)) = 201") auto
  qed
  have c: "res_status (fst (h e st u b)) \<noteq> 201 \<longrightarrow>
      notifications (snd (h e st u b)) = notifications st"
    using n by blast
  show ?thesis
    by (intro conjI a b c router_post_basic_notifications)
qed

theorem assignment_notification_witness:
  "res_status (fst (router_post env0 db0 alice (new_report\<lparr>body_assignedTo := Some (userId bob)\<rparr>))) = 201 \<and>
   body_assignedTo (new_report\<lparr>body_assignedTo := Some (userId bob)\<rparr>) = Some (userId bob) \<and>
   userId bob \<noteq> [] \<and>
   castObjectId env0 (userId bob) = Some (userId bob) \<and>
   \<not> Notification_rejects env0 (userId bob)
        (''You have been assigned a new task: '' @
         template (body_title (new_report\<lparr>body_assignedTo := Some (userId bob)\<rparr>))) \<and>
   notifications (snd (router_post env0 db0 alice (new_report\<lparr>body_assignedTo := Some (userId bob)\<rparr>))) =
     notifications db0 @
       [\<lparr>notif_user = userId bob,
         notif_message = ''You have been assigned a new task: '' @
           template (body_title (new_report\<lparr>body_assignedTo := Some (userId bob)\<rparr>))\<rparr>] \<and>
   res_status (fst (router_post env0 db0 alice new_report)) = 201 \<and>
   body_assignedTo new_report \<in> {None, Some []} \<and>
   notifications (snd (router_post env0 db0 alice new_report)) = notifications db0"
proof -
  let ?b = "new_report\<lparr>body_assignedTo := Some (userId bob)\<rparr>"
  have a: "res_status (fst (router_post env0 db0 alice ?b)) = 201"
    by (simp add: router_post_def validationResult_def notEmpty_def new_Task_def castOptional_def
          Task_save_new_def env0_def new_report_def no_body_def alice_def bob_def)
  have b: "body_assignedTo ?b = Some (userId bob)" by simp
  have c: "userId bob \<noteq> []" by (simp add: bob_def)
  have k: "castObjectId env0 (userId bob) = Some (userId bob)" by (simp add: env0_def)
  have d: "\<not> Notification_rejects env0 (userId bob)
        (''You have been assigned a new task: '' @ template (body_title ?b))"
    by (simp add: env0_def)
  have e: "res_status (fst (router_post env0 db0 alice new_report)) = 201"
    by (simp add: router_post_def validationResult_def notEmpty_def new_Task_def castOptional_def
          Task_save_new_def env0_def new_report_def no_body_def alice_def)
  have f: "body_assignedTo new_report \<in> {None, Some []}"
    by (simp add: new_report_def no_body_def)
  note t1 = assignment_notification [OF disjI1 [OF refl], of env0 db0 alice ?b "userId bob"]
  note t2 = assignment_notification [OF disjI1 [OF refl], of env0 db0 alice new_report "userId bob"]
  have w1: "notifications (snd (router_post env0 db0 alice ?b)) =
     notifications db0 @
       [\<lparr>notif_user = userId bob,
         notif_message = ''You have been assigned a new task: '' @ template (body_title ?b)\<rparr>]"
  proof -
    from conjunct1 [OF t1] a b c obtain t c' where
      c': "castObjectId env0 (userId bob) = Some c'"
      "notifications (snd (router_post env0 db0 alice ?b)) =
           (if Notification_rejects env0 c'
                 (''You have been assigned a new task: '' @ template (body_title ?b))
            then notifications db0
            else notifications db0 @
                   [\<lparr>notif_user = c',
                     notif_message =
                       ''You have been assigned a new task: '' @ template (body_title ?b)\<rparr>])"
      by blast
    from c'(1) k have "c' = userId bob" by simp
    with c'(2) d show ?thesis by simp
  qed
  have w2: "notifications (snd (router_post env0 db0 alice new_report)) = notifications db0"
    using conjunct1 [OF conjunct2 [OF t2]] f by blast
  from a b c k d e f w1 w2 show ?thesis by (intro conjI)
qed

section \<open>The creator of a task\<close>

text \<open>Every handler but the generic update keeps the creator of every stored task: a
  creation appends the new task with the caller's object id as creator, a status update
  changes no creator, a delete removes one task.\<close>

lemma map_update_first_same:
  "(\<And>x. g (f x) = g x) \<Longrightarrow> map g (update_first P f xs) = map g xs"
  by (induction xs) auto

lemma map_delete_first:
  "map (\<lambda>t. (task_id t, createdBy t)) (delete_first (\<lambda>x. task_id x = k) xs) =
     delete_first (\<lambda>p. fst p = k) (map (\<lambda>t. (task_id t, createdBy t)) xs)"
  by (induction xs) auto

lemma owners_logAction: "owners (logAction e st uid a tid d) = owners st"
  by (simp add: owners_def logAction_fields)

lemma owners_notify_assigned: "owners (notify_assigned e st b) = owners st"
  by (simp add: owners_def notify_assigned_fields)

lemma new_Task_owner:
  "new_Task e st b uid = Some t \<Longrightarrow>
     task_id t = nextId st \<and> castObjectId e uid = Some (createdBy t)"
  by (auto simp: new_Task_def split: option.splits if_splits)

lemma owners_post:
  assumes "h = router_post \<or> h = router_post_notify \<or> h = router_post_basic"
  shows "(res_status (fst (h e st u b)) = 201 \<longrightarrow>
            (\<exists>c. castObjectId e (userId u) = Some c \<and>
                 owners (snd (h e st u b)) = owners st @ [(nextId st, c)])) \<and>
         (res_status (fst (h e st u b)) \<noteq> 201 \<longrightarrow> owners (snd (h e st u b)) = owners st)"
proof (cases "new_Task e st b (userId u)")
  case None
  with assms show ?thesis
    by (auto simp: router_post_def router_post_notify_def router_post_basic_def
          Task_save_new_def owners_def split: if_splits)
next
  case (Some t)
  from new_Task_owner [OF Some] have "task_id t = nextId st"
    "castObjectId e (userId u) = Some (createdBy t)" by auto
  with Some assms show ?thesis
    by (auto simp: router_post_def router_post_notify_def router_post_basic_def
          Task_save_new_def owners_logAction owners_notify_assigned split: if_splits)
      (simp_all add: owners_def)
qed

lemma owners_put_status:
  "owners (snd (router_put_status e st u i b)) = owners st"
  "owners (snd (router_put_status_notify e st u i b)) = owners st"
  by (auto simp: router_put_status_def router_put_status_notify_def Task_findById_def
        Task_save_status_def owners_logAction split: option.splits)
     (simp_all add: owners_def set_status_def map_update_first_same)

lemma owners_delete:
  "owners (snd (router_delete e st u i)) =
     (if res_status (fst (router_delete e st u i)) = 200
      then delete_first (\<lambda>p. fst p = i) (owners st) else owners st)"
  "owners (snd (router_delete_basic e st u i)) =
     (if res_status (fst (router_delete_basic e st u i)) = 200
      then delete_first (\<lambda>p. fst p = i) (owners st) else owners st)"
  by (auto simp: router_delete_def router_delete_basic_def Task_findById_def
        Task_deleteOne_def owners_logAction split: option.splits)
     (auto simp: owners_def map_delete_first dest!: find_Some_holds)

text \<open>
  Claim C9: \<^verbatim>\<open>createdBy\<close> is set once, at creation, to the authenticated requester, and
  no later operation changes it. The code means this (\<^verbatim>\<open>POST /\<close> takes \<^verbatim>\<open>createdBy\<close> from
  the token alone, and the ownership check of update and delete relies on it) but the
  generic update \<^verbatim>\<open>PUT /:id\<close> of \<^verbatim>\<open>src/routes/taskRoutes.js\<close> breaks it: it hands the
  whole \<^verbatim>\<open>req.body\<close> to \<^verbatim>\<open>findByIdAndUpdate\<close>. Here the owner of task 1, who is not an
  admin, sends a body whose \<^verbatim>\<open>createdBy\<close> is another user's id: the answer is 200 and
  the stored task names that user as its creator.
\<close>

theorem generic_update_rewrites_createdBy:
  "owners db1 = [(1, userId alice)] \<and> role alice \<noteq> ''admin'' \<and> userId bob \<noteq> userId alice \<and>
   body_createdBy (no_body\<lparr>body_createdBy := Some (userId bob)\<rparr>) = Some (userId bob) \<and>
   fst (router_put_basic env0 db1 alice 1 (no_body\<lparr>body_createdBy := Some (userId bob)\<rparr>)) =
     \<lparr>res_status = 200,
      res_json = TaskDoc (task1\<lparr>createdBy := userId bob, updatedAt := now env0\<rparr>)\<rparr> \<and>
   owners (snd (router_put_basic env0 db1 alice 1 (no_body\<lparr>body_createdBy := Some (userId bob)\<rparr>)))
     = [(1, userId bob)]"
  by (simp add: router_put_basic_def Task_findById_def Task_findByIdAndUpdate_def castOptional_def
        apply_body_def set_field_def owners_def
        env0_def db1_def task1_def alice_def bob_def carol_def no_body_def)

end
